theory Spec2Isabelle
  imports Complex_Main "HOL-Library.Sublist"
begin

section \<open>Data model\<close>

text \<open>
  One row of \<open>annual_df\<close> (the table stored under \<open>annual_projections\<close>). Every column the
  dashboard reads is a field. The cells of the required numeric columns are finite numbers
  and are modelled as reals: comparison, maximum, minimum and arg-max of finite floats agree
  with the same operations on the reals they denote; differences and products are taken
  exactly, and the formatting of a number for display is left out (a card or a table row
  holds the number that the source formats). The column \<open>marginal_roas_from_137m\<close> may hold
  missing cells (the source drops them with \<open>dropna\<close>), so its cells are optional; whether
  the column exists at all is the flag \<open>has_marginal_137m\<close> of the dashboard.
\<close>

record scenario =
  total_annual_spend :: real
  total_annual_sales :: real
  total_annual_traffic :: real
  total_annual_transactions :: real
  blended_roas :: real
  blended_conversion_rate :: real
  blended_aov :: real
  marginal_roas :: real
  marginal_roas_from_137m :: "real option"

text \<open>
  One row of \<open>baseline_df\<close> (the table stored under \<open>baseline_projections\<close>). Its column
  \<open>marginal_roas\<close> is the field \<open>weekly_marginal_roas\<close>.
\<close>

record baseline =
  weekly_spend :: real
  sales :: real
  sales_increase :: real
  weekly_marginal_roas :: real

text \<open>The exceptions that the modelled code can raise or meet.\<close>

datatype py_exception =
    FileNotFoundError | PermissionError | IsADirectoryError | UnpicklingError | EOFError
  | ValueError | IndexError | TypeError | KeyError

section \<open>Table primitives\<close>

text \<open>
  \<open>df[mask]\<close>: the rows of \<open>df\<close> at which the boolean series \<open>mask\<close> is true, in the order
  of \<open>df\<close>.
\<close>

fun boolean_index :: "'a list \<Rightarrow> bool list \<Rightarrow> 'a list" where
  "boolean_index (x # xs) (b # bs) =
     (if b then x # boolean_index xs bs else boolean_index xs bs)"
| "boolean_index _ _ = []"

text \<open>\<open>a & b\<close> on two boolean series of one table.\<close>

definition mask_and :: "bool list \<Rightarrow> bool list \<Rightarrow> bool list" where
  "mask_and a b = map2 (\<and>) a b"

text \<open>\<open>df[col]\<close>: one column of a table as a series.\<close>

definition column :: "('r \<Rightarrow> 'c) \<Rightarrow> 'r list \<Rightarrow> 'c list" where
  "column col df = map col df"

text \<open>Comparison of a series with a scalar.\<close>

definition series_ge :: "real list \<Rightarrow> real \<Rightarrow> bool list" where
  "series_ge s c = map (\<lambda>v. v \<ge> c) s"

definition series_le :: "real list \<Rightarrow> real \<Rightarrow> bool list" where
  "series_le s c = map (\<lambda>v. v \<le> c) s"

definition series_lt :: "real list \<Rightarrow> real \<Rightarrow> bool list" where
  "series_lt s c = map (\<lambda>v. v < c) s"

text \<open>
  A cell that may be missing: \<open>None\<close> is NaN. \<open>notna\<close> is the test of \<open>dropna\<close>; a
  comparison with NaN is false.
\<close>

fun notna :: "real option \<Rightarrow> bool" where
  "notna None = False"
| "notna (Some v) = True"

fun nan_lt :: "real option \<Rightarrow> real \<Rightarrow> bool" where
  "nan_lt None c = False"
| "nan_lt (Some v) c = (v < c)"

definition series_notna :: "real option list \<Rightarrow> bool list" where
  "series_notna s = map notna s"

definition series_lt_nan :: "real option list \<Rightarrow> real \<Rightarrow> bool list" where
  "series_lt_nan s c = map (\<lambda>v. nan_lt v c) s"

text \<open>Arithmetic on cells that may be NaN: a NaN operand gives NaN.\<close>

definition nan_sub :: "real option \<Rightarrow> real option \<Rightarrow> real option" where
  "nan_sub a b = (case (a, b) of (Some x, Some y) \<Rightarrow> Some (x - y) | _ \<Rightarrow> None)"

definition nan_div :: "real option \<Rightarrow> real \<Rightarrow> real option" where
  "nan_div a c = map_option (\<lambda>x. x / c) a"

text \<open>\<open>Series.max()\<close> and \<open>Series.min()\<close>: NaN on an empty series.\<close>

fun series_max :: "real list \<Rightarrow> real option" where
  "series_max [] = None"
| "series_max (v # vs) = Some (fold max vs v)"

fun series_min :: "real list \<Rightarrow> real option" where
  "series_min [] = None"
| "series_min (v # vs) = Some (fold min vs v)"

text \<open>
  \<open>Series.idxmax()\<close>: the label of the first row that holds the maximum; \<open>ValueError\<close> on
  an empty series. A row's label is its position: the labels of a table are unique, and
  \<open>.loc[label, col]\<close> reads the row at that position.
\<close>

fun idxmax_from :: "nat \<Rightarrow> real \<Rightarrow> nat \<Rightarrow> real list \<Rightarrow> nat" where
  "idxmax_from best_i best_v i [] = best_i"
| "idxmax_from best_i best_v i (v # vs) =
     (if v > best_v then idxmax_from i v (Suc i) vs else idxmax_from best_i best_v (Suc i) vs)"

definition idxmax :: "real list \<Rightarrow> py_exception + nat" where
  "idxmax s = (case s of [] \<Rightarrow> Inl ValueError | v # vs \<Rightarrow> Inr (idxmax_from 0 v 1 vs))"

text \<open>
  \<open>Series.round(-6)\<close>: divide by \<open>10^6\<close>, round to the nearest integer with ties to the even
  one, multiply by \<open>10^6\<close>.
\<close>

definition rint :: "real \<Rightarrow> int" where
  "rint x =
     (let f = \<lfloor>x\<rfloor>; d = x - of_int f
      in if d < 1 / 2 then f else if 1 / 2 < d then f + 1 else if even f then f else f + 1)"

definition round_millions :: "real \<Rightarrow> real" where
  "round_millions x = of_int (rint (x / 1000000)) * 1000000"

text \<open>\<open>Series.unique()\<close>: the distinct values in the order of their first appearance.\<close>

fun unique_from :: "real list \<Rightarrow> real list \<Rightarrow> real list" where
  "unique_from seen [] = seen"
| "unique_from seen (v # vs) =
     (if v \<in> set seen then unique_from seen vs else unique_from (seen @ [v]) vs)"

definition unique :: "real list \<Rightarrow> real list" where
  "unique s = unique_from [] s"

section \<open>Filter Engine\<close>

text \<open>
  Lines 78--82 of \<open>streamlit_kpi_app.py\<close>. \<open>spend_range\<close> is the pair of integers the
  slider returns, in millions; \<open>min_roas\<close> is the selected threshold.
\<close>

definition filter_engine :: "scenario list \<Rightarrow> int \<times> int \<Rightarrow> real \<Rightarrow> scenario list" where
  "filter_engine annual_df spend_range min_roas =
     boolean_index annual_df
       (mask_and
          (mask_and
             (series_ge (column total_annual_spend annual_df)
                (of_int (fst spend_range * 1000000)))
             (series_le (column total_annual_spend annual_df)
                (of_int (snd spend_range * 1000000))))
          (series_ge (column blended_roas annual_df) min_roas))"

section \<open>Metric Summarizer\<close>

text \<open>
  Lines 93--127: the four headline cards. The first card is always drawn; each of the
  other three is drawn under \<open>if not filtered_df.empty\<close> and is \<open>None\<close> otherwise. A card
  with a delta holds the value and the delta, each possibly NaN. The sales delta is
  \<open>max_sales/1_000_000 - annual_df['total_annual_sales'].min()/1_000_000\<close>, in millions.
\<close>

record metric_cards =
  total_scenarios :: nat
  from_filters :: int
  max_annual_sales :: "(real option \<times> real option) option"
  best_roas :: "(real option \<times> real option) option"
  optimal_spend :: "real option"

definition metric_summarizer ::
  "scenario list \<Rightarrow> scenario list \<Rightarrow> py_exception + metric_cards" where
  "metric_summarizer annual_df filtered_df =
     (let col2 =
            (if filtered_df \<noteq> [] then
               (let max_sales = series_max (column total_annual_sales filtered_df)
                in Some (max_sales,
                     nan_sub (nan_div max_sales 1000000)
                       (nan_div (series_min (column total_annual_sales annual_df)) 1000000)))
             else None);
          col3 =
            (if filtered_df \<noteq> [] then
               (let best = series_max (column blended_roas filtered_df)
                in Some (best, nan_sub best (series_min (column blended_roas annual_df))))
             else None)
      in if filtered_df \<noteq> [] then
           (case idxmax (column blended_roas filtered_df) of
              Inl e \<Rightarrow> Inl e
            | Inr label \<Rightarrow>
                Inr \<lparr> total_scenarios = length filtered_df,
                      from_filters = int (length filtered_df) - int (length annual_df),
                      max_annual_sales = col2, best_roas = col3,
                      optimal_spend = Some (total_annual_spend (filtered_df ! label)) \<rparr>)
         else
           Inr \<lparr> total_scenarios = length filtered_df,
                 from_filters = int (length filtered_df) - int (length annual_df),
                 max_annual_sales = col2, best_roas = col3, optimal_spend = None \<rparr>)"

section \<open>Threshold Scanner\<close>

text \<open>
  Lines 320--336, the branch taken when the table has the column
  \<open>marginal_roas_from_137m\<close>. The list of thresholds, a literal in the source, is a
  parameter of the loop; \<open>marginal_thresholds\<close> is the literal.
\<close>

definition reference_baseline_spend :: real where
  "reference_baseline_spend = 137200000"

definition marginal_thresholds :: "real list" where
  "marginal_thresholds = [3.0, 2.5, 2.0, 1.5, 1.0, 0.5]"

text \<open>One dictionary appended to \<open>thresholds_data\<close>, with the numbers it formats.\<close>

record threshold_row =
  row_threshold :: real
  row_annual_spend :: real
  row_incremental :: real
  row_annual_sales :: real
  row_blended_roas :: real

text \<open>\<open>filtered_df.dropna(subset=['marginal_roas_from_137m'])\<close>.\<close>

definition dropna_137m :: "scenario list \<Rightarrow> scenario list" where
  "dropna_137m df = boolean_index df (series_notna (column marginal_roas_from_137m df))"

text \<open>
  Lines 326--328: \<open>below_threshold\<close> and, when it is not empty, its first row
  \<open>first_below\<close>.
\<close>

definition crossing :: "scenario list \<Rightarrow> real \<Rightarrow> scenario option" where
  "crossing marginal_data threshold =
     (let below_threshold =
            boolean_index marginal_data
              (series_lt_nan (column marginal_roas_from_137m marginal_data) threshold)
      in case below_threshold of [] \<Rightarrow> None | first_below # _ \<Rightarrow> Some first_below)"

text \<open>Lines 329--336.\<close>

definition crossing_row :: "real \<Rightarrow> scenario \<Rightarrow> threshold_row" where
  "crossing_row threshold first_below =
     (let incremental_spend = total_annual_spend first_below - reference_baseline_spend
      in \<lparr> row_threshold = threshold,
           row_annual_spend = total_annual_spend first_below,
           row_incremental = incremental_spend,
           row_annual_sales = total_annual_sales first_below,
           row_blended_roas = blended_roas first_below \<rparr>)"

fun threshold_loop :: "real list \<Rightarrow> scenario list \<Rightarrow> threshold_row list" where
  "threshold_loop [] marginal_data = []"
| "threshold_loop (threshold # rest) marginal_data =
     (case crossing marginal_data threshold of
        None \<Rightarrow> threshold_loop rest marginal_data
      | Some first_below \<Rightarrow>
          crossing_row threshold first_below # threshold_loop rest marginal_data)"

definition threshold_analysis :: "real list \<Rightarrow> scenario list \<Rightarrow> threshold_row list" where
  "threshold_analysis thresholds filtered_df =
     threshold_loop thresholds (dropna_137m filtered_df)"

text \<open>
  Lines 224--227 and 338--350: the fallback on the weekly baseline table, taken when the
  column is absent.
\<close>

record weekly_row =
  wk_threshold :: real
  wk_weekly_spend :: real
  wk_annual_spend :: real
  wk_annual_sales :: real

definition weekly_thresholds :: "real list" where
  "weekly_thresholds = [4.0, 3.5, 3.0, 2.5, 2.0, 1.5, 1.0]"

definition baseline_filter :: "baseline list \<Rightarrow> int \<times> int \<Rightarrow> baseline list" where
  "baseline_filter baseline_df spend_range =
     boolean_index baseline_df
       (mask_and
          (series_ge (column weekly_spend baseline_df)
             (of_int (fst spend_range * 1000000) / 52))
          (series_le (column weekly_spend baseline_df)
             (of_int (snd spend_range * 1000000) / 52)))"

fun weekly_threshold_loop :: "real list \<Rightarrow> baseline list \<Rightarrow> weekly_row list" where
  "weekly_threshold_loop [] baseline_filtered = []"
| "weekly_threshold_loop (threshold # rest) baseline_filtered =
     (case boolean_index baseline_filtered
             (series_lt (column weekly_marginal_roas baseline_filtered) threshold) of
        [] \<Rightarrow> weekly_threshold_loop rest baseline_filtered
      | first_below # _ \<Rightarrow>
          (let annual_spend = weekly_spend first_below * 52
           in \<lparr> wk_threshold = threshold,
                wk_weekly_spend = weekly_spend first_below,
                wk_annual_spend = annual_spend,
                wk_annual_sales = sales first_below * 52 \<rparr>
              # weekly_threshold_loop rest baseline_filtered))"

section \<open>Scenario Comparator\<close>

text \<open>
  Lines 364--385: the options of the three select boxes are the distinct spends of the
  filtered table, each rounded to the million. A select box returns the option at the
  position picked on screen (at first the position given as \<open>index\<close>, which
  \<open>default_picks\<close> computes), and \<open>None\<close> when it has no options.
\<close>

definition scenario_options :: "scenario list \<Rightarrow> real list" where
  "scenario_options filtered_df =
     unique (map round_millions (column total_annual_spend filtered_df))"

definition selectbox :: "real list \<Rightarrow> nat \<Rightarrow> real option" where
  "selectbox options pick = (if pick < length options then Some (options ! pick) else None)"

definition default_picks :: "real list \<Rightarrow> nat \<times> nat \<times> nat" where
  "default_picks options =
     (0, nat (min (int (length options) - 1) 5), nat (min (int (length options) - 1) 10))"

text \<open>One dictionary appended to \<open>scenarios\<close>, with the numbers it formats.\<close>

record comparison_row =
  cmp_scenario :: nat
  cmp_annual_spend :: real
  cmp_annual_sales :: real
  cmp_roas :: real
  cmp_traffic :: real
  cmp_conv_rate :: real
  cmp_aov :: real
  cmp_transactions :: real

definition comparison_row :: "nat \<Rightarrow> scenario \<Rightarrow> comparison_row" where
  "comparison_row i scenario_data =
     \<lparr> cmp_scenario = i,
       cmp_annual_spend = total_annual_spend scenario_data,
       cmp_annual_sales = total_annual_sales scenario_data,
       cmp_roas = blended_roas scenario_data,
       cmp_traffic = total_annual_traffic scenario_data,
       cmp_conv_rate = blended_conversion_rate scenario_data,
       cmp_aov = blended_aov scenario_data,
       cmp_transactions = total_annual_transactions scenario_data \<rparr>"

text \<open>
  Lines 390--393. \<open>spend * 0.99\<close> with \<open>spend = None\<close> raises \<open>TypeError\<close>; \<open>.iloc[0]\<close> on
  an empty selection raises \<open>IndexError\<close>.
\<close>

definition scenario_lookup :: "scenario list \<Rightarrow> real option \<Rightarrow> py_exception + scenario" where
  "scenario_lookup filtered_df spend =
     (case spend of
        None \<Rightarrow> Inl TypeError
      | Some target \<Rightarrow>
          (case boolean_index filtered_df
                  (mask_and
                     (series_ge (column total_annual_spend filtered_df) (target * 0.99))
                     (series_le (column total_annual_spend filtered_df) (target * 1.01))) of
             [] \<Rightarrow> Inl IndexError
           | scenario_data # _ \<Rightarrow> Inr scenario_data))"

text \<open>Lines 388--404: the loop stops at the first exception.\<close>

fun comparison_loop ::
  "nat \<Rightarrow> real option list \<Rightarrow> scenario list \<Rightarrow> py_exception + comparison_row list" where
  "comparison_loop i [] filtered_df = Inr []"
| "comparison_loop i (spend # rest) filtered_df =
     (case scenario_lookup filtered_df spend of
        Inl e \<Rightarrow> Inl e
      | Inr scenario_data \<Rightarrow>
          (case comparison_loop (Suc i) rest filtered_df of
             Inl e \<Rightarrow> Inl e
           | Inr rows \<Rightarrow> Inr (comparison_row i scenario_data # rows)))"

definition scenario_comparison ::
  "scenario list \<Rightarrow> nat \<times> nat \<times> nat \<Rightarrow> py_exception + comparison_row list" where
  "scenario_comparison filtered_df picks =
     (let options = scenario_options filtered_df;
          scenario_1_spend = selectbox options (fst picks);
          scenario_2_spend = selectbox options (fst (snd picks));
          scenario_3_spend = selectbox options (snd (snd picks))
      in comparison_loop 1 [scenario_1_spend, scenario_2_spend, scenario_3_spend] filtered_df)"

section \<open>The analysis sections\<close>

text \<open>
  Lines 133--450: what the selected analysis shows, as the data handed to the charts and
  tables, or the exception that ends the run.
\<close>

datatype analysis_type = AnnualOverview | MarginalReturns | ScenarioComparison | DataTable

datatype view =
    Warning string
  | OverviewCharts "scenario list"
  | MarginalThresholds "threshold_row list"
  | WeeklyThresholds "weekly_row list"
  | ComparisonTable "comparison_row list"
  | CompleteDataTable "scenario list"

definition no_match_warning :: string where
  "no_match_warning = ''No scenarios match your filters. Please adjust the controls.''"

definition analysis_section ::
  "analysis_type \<Rightarrow> bool \<Rightarrow> baseline list \<Rightarrow> int \<times> int \<Rightarrow> scenario list \<Rightarrow> nat \<times> nat \<times> nat
     \<Rightarrow> py_exception + view" where
  "analysis_section analysis_type has_marginal_137m baseline_df spend_range filtered_df picks =
     (case analysis_type of
        AnnualOverview \<Rightarrow>
          (if filtered_df = [] then Inr (Warning no_match_warning)
           else Inr (OverviewCharts filtered_df))
      | MarginalReturns \<Rightarrow>
          (if filtered_df = [] then Inr (Warning no_match_warning)
           else if has_marginal_137m then
             Inr (MarginalThresholds (threshold_analysis marginal_thresholds filtered_df))
           else
             Inr (WeeklyThresholds
                    (weekly_threshold_loop weekly_thresholds
                       (baseline_filter baseline_df spend_range))))
      | ScenarioComparison \<Rightarrow>
          (case scenario_comparison filtered_df picks of
             Inl e \<Rightarrow> Inl e
           | Inr scenarios \<Rightarrow> Inr (ComparisonTable scenarios))
      | DataTable \<Rightarrow>
          (if filtered_df = [] then Inr (Warning no_match_warning)
           else Inr (CompleteDataTable filtered_df)))"

text \<open>
  Lines 53--62: the bounds of the spend slider. \<open>int\<close> truncates towards zero and raises
  \<open>ValueError\<close> on NaN, which is what \<open>min\<close> and \<open>max\<close> give on an empty table; \<open>//\<close> is
  the floor division. The slider then returns the pair \<open>spend_range\<close> that is selected on
  screen.
\<close>

definition py_int :: "real \<Rightarrow> int" where
  "py_int x = (if 0 \<le> x then \<lfloor>x\<rfloor> else \<lceil>x\<rceil>)"

definition slider_bounds :: "scenario list \<Rightarrow> py_exception + int \<times> int" where
  "slider_bounds annual_df =
     (case series_min (column total_annual_spend annual_df) of
        None \<Rightarrow> Inl ValueError
      | Some lowest \<Rightarrow>
          (case series_max (column total_annual_spend annual_df) of
             None \<Rightarrow> Inl ValueError
           | Some highest \<Rightarrow>
               (let min_annual_spend = py_int lowest; max_annual_spend = py_int highest
                in Inr (min_annual_spend div 1000000, max_annual_spend div 1000000))))"

text \<open>
  One run of the script after the data is loaded: slider bounds, filter, cards, selected
  analysis.
\<close>

definition dashboard ::
  "scenario list \<Rightarrow> bool \<Rightarrow> baseline list \<Rightarrow> int \<times> int \<Rightarrow> real \<Rightarrow> analysis_type
     \<Rightarrow> nat \<times> nat \<times> nat \<Rightarrow> py_exception + metric_cards \<times> view" where
  "dashboard annual_df has_marginal_137m baseline_df spend_range min_roas analysis_type picks =
     (case slider_bounds annual_df of
        Inl e \<Rightarrow> Inl e
      | Inr bounds \<Rightarrow>
          (let filtered_df = filter_engine annual_df spend_range min_roas
           in case metric_summarizer annual_df filtered_df of
                Inl e \<Rightarrow> Inl e
              | Inr cards \<Rightarrow>
                  (case analysis_section analysis_type has_marginal_137m baseline_df
                          spend_range filtered_df picks of
                     Inl e \<Rightarrow> Inl e
                   | Inr v \<Rightarrow> Inr (cards, v))))"

section \<open>Data Loader\<close>

text \<open>
  Lines 29--37. The argument is what \<open>open\<close> followed by \<open>pickle.load\<close> does: it raises
  an exception or yields the unpickled object. \<open>except FileNotFoundError\<close> handles that one
  exception with \<open>st.error\<close> and \<open>st.stop\<close>; any other exception leaves the function.
\<close>

datatype 'd outcome = Returned 'd | Stopped string | Raised py_exception

definition pipeline_missing_message :: string where
  "pipeline_missing_message =
     ''Pipeline data not found. Please run the KPI modeling pipeline first.''"

definition load_pipeline_data :: "py_exception + 'd \<Rightarrow> 'd outcome" where
  "load_pipeline_data file =
     (case file of
        Inr unpickled \<Rightarrow> Returned unpickled
      | Inl e \<Rightarrow>
          (if e = FileNotFoundError then Stopped pipeline_missing_message else Raised e))"

text \<open>The keys that the script reads from the loaded mapping (lines 41--44 and 461).\<close>

definition dataset_keys :: "string list" where
  "dataset_keys =
     [''annual_projections'', ''baseline_projections'', ''holiday_projections'',
      ''summary_metrics'', ''data_timestamp'']"

section \<open>The synthetic-data dashboard\<close>

text \<open>
  \<open>app.py\<close>. \<open>np.random.randint(low, high, size)\<close> reads and advances the state of the
  global generator; it is a parameter \<open>randint\<close> that takes the state and returns the
  numbers drawn with the new state. \<open>pd.date_range("2024-01-01", "2026-12-31", freq="M")\<close>
  is the list of the month ends of 2024 to 2026.
\<close>

datatype scenario_type = Baseline | Optimistic | Pessimistic | Conservative

fun scenario_name :: "scenario_type \<Rightarrow> string" where
  "scenario_name Baseline = ''Baseline''"
| "scenario_name Optimistic = ''Optimistic''"
| "scenario_name Pessimistic = ''Pessimistic''"
| "scenario_name Conservative = ''Conservative''"

definition is_leap :: "nat \<Rightarrow> bool" where
  "is_leap y = ((y mod 4 = 0 \<and> 0 < y mod 100) \<or> y mod 400 = 0)"

definition days_in_month :: "nat \<Rightarrow> nat \<Rightarrow> nat" where
  "days_in_month y m =
     (if m = 2 then (if is_leap y then 29 else 28)
      else if m = 4 \<or> m = 6 \<or> m = 9 \<or> m = 11 then 30 else 31)"

definition month_ends :: "nat \<Rightarrow> nat \<Rightarrow> (nat \<times> nat \<times> nat) list" where
  "month_ends first_year last_year =
     concat (map (\<lambda>y. map (\<lambda>m. (y, m, days_in_month y m)) [1..<13])
               [first_year..<Suc last_year])"

record sample_frame =
  col_date :: "(nat \<times> nat \<times> nat) list"
  col_revenue :: "int list"
  col_costs :: "int list"
  col_profit :: "int list"

record app_page =
  line_title :: string
  page_frame :: sample_frame
  total_revenue :: int
  total_costs :: int
  total_profit :: int
  bar_title :: string

definition app ::
  "('g \<Rightarrow> int \<Rightarrow> int \<Rightarrow> nat \<Rightarrow> int list \<times> 'g) \<Rightarrow> 'g \<Rightarrow> scenario_type \<Rightarrow> app_page \<times> 'g" where
  "app randint g0 scenario_type =
     (let dates = month_ends 2024 2026;
          (revenue, g1) = randint g0 100000 500000 (length dates);
          (costs, g2) = randint g1 50000 200000 (length dates);
          (profit, g3) = randint g2 20000 150000 (length dates);
          frame = \<lparr> col_date = dates, col_revenue = revenue, col_costs = costs,
                    col_profit = profit \<rparr>
      in (\<lparr> line_title = scenario_name scenario_type @ '' Scenario - Financial Trends'',
            page_frame = frame,
            total_revenue = sum_list (col_revenue frame),
            total_costs = sum_list (col_costs frame),
            total_profit = sum_list (col_profit frame),
            bar_title = scenario_name scenario_type @ '' Scenario - Summary'' \<rparr>,
          g3))"

section \<open>The contracts in the words of the specification\<close>

text \<open>
  A record is kept by the Filter Engine when \<open>lo \<le> total_annual_spend \<le> hi\<close> and
  \<open>blended_roas \<ge> r_min\<close>, with \<open>lo\<close> and \<open>hi\<close> in currency units.
\<close>

definition satisfies_filter :: "real \<Rightarrow> real \<Rightarrow> real \<Rightarrow> scenario \<Rightarrow> bool" where
  "satisfies_filter lo hi r_min rec =
     (lo \<le> total_annual_spend rec \<and> total_annual_spend rec \<le> hi \<and> blended_roas rec \<ge> r_min)"

text \<open>The bound of the slider, given in millions, in currency units.\<close>

definition currency :: "int \<Rightarrow> real" where
  "currency m = of_int (m * 1000000)"

text \<open>A record falls below a threshold when its marginal value is present and smaller.\<close>

definition below :: "real \<Rightarrow> scenario \<Rightarrow> bool" where
  "below threshold rec = nan_lt (marginal_roas_from_137m rec) threshold"

text \<open>A record is within the tolerance band of one percent around a target spend.\<close>

definition within_tolerance :: "real \<Rightarrow> scenario \<Rightarrow> bool" where
  "within_tolerance target rec =
     (0.99 * target \<le> total_annual_spend rec \<and> total_annual_spend rec \<le> 1.01 * target)"

section \<open>Example data\<close>

text \<open>A record with the given spend, sales and ROAS; the marginal value equals the ROAS.\<close>

definition mk_scenario :: "real \<Rightarrow> real \<Rightarrow> real \<Rightarrow> scenario" where
  "mk_scenario spend sls roas =
     \<lparr> total_annual_spend = spend, total_annual_sales = sls,
       total_annual_traffic = 0, total_annual_transactions = 0,
       blended_roas = roas, blended_conversion_rate = 0, blended_aov = 1,
       marginal_roas = roas, marginal_roas_from_137m = Some roas \<rparr>"

text \<open>The three records of the specification's scanner example.\<close>

definition example_records :: "scenario list" where
  "example_records =
     [mk_scenario 100000000 300000000 3.0, mk_scenario 150000000 330000000 2.2,
      mk_scenario 200000000 360000000 1.8]"

text \<open>The two records of the specification's summarizer example.\<close>

definition summary_records :: "scenario list" where
  "summary_records =
     [mk_scenario 100000000 250000000 2.5, mk_scenario 200000000 400000000 2.0]"

text \<open>Two records that share the best ROAS.\<close>

definition tied_records :: "scenario list" where
  "tied_records =
     [mk_scenario 100000000 250000000 2.5, mk_scenario 200000000 400000000 2.0,
      mk_scenario 300000000 750000000 2.5]"

text \<open>A table whose smallest spend rounds to a million that is far from it.\<close>

definition small_spend_records :: "scenario list" where
  "small_spend_records =
     [mk_scenario 1400000 2800000 2.0, mk_scenario 3000000 4500000 1.5]"

text \<open>
  A table whose spends are not whole millions: 149.5M and 150.5M lie halfway between two
  millions, and 100.4M lies within one percent of 101M, the rounded spend of the record
  after it.
\<close>

definition comparison_records :: "scenario list" where
  "comparison_records =
     [\<lparr> total_annual_spend = 100400000, total_annual_sales = 301200000,
        total_annual_traffic = 5020000, total_annual_transactions = 120480,
        blended_roas = 3.0, blended_conversion_rate = 0.024, blended_aov = 2500,
        marginal_roas = 3.0, marginal_roas_from_137m = None \<rparr>,
      \<lparr> total_annual_spend = 100900000, total_annual_sales = 302000000,
        total_annual_traffic = 5040000, total_annual_transactions = 120800,
        blended_roas = 2.99, blended_conversion_rate = 0.0239, blended_aov = 2490,
        marginal_roas = 2.9, marginal_roas_from_137m = None \<rparr>,
      \<lparr> total_annual_spend = 149500000, total_annual_sales = 330000000,
        total_annual_traffic = 6000000, total_annual_transactions = 138000,
        blended_roas = 2.2, blended_conversion_rate = 0.023, blended_aov = 2400,
        marginal_roas = 1.7, marginal_roas_from_137m = Some 2.3 \<rparr>,
      \<lparr> total_annual_spend = 150500000, total_annual_sales = 331000000,
        total_annual_traffic = 6010000, total_annual_transactions = 138100,
        blended_roas = 2.19, blended_conversion_rate = 0.0229, blended_aov = 2390,
        marginal_roas = 1.6, marginal_roas_from_137m = Some 2.2 \<rparr>,
      \<lparr> total_annual_spend = 200600000, total_annual_sales = 361000000,
        total_annual_traffic = 6500000, total_annual_transactions = 143000,
        blended_roas = 1.8, blended_conversion_rate = 0.022, blended_aov = 2300,
        marginal_roas = 1.1, marginal_roas_from_137m = Some 1.9 \<rparr>]"

text \<open>
  A table whose first record lies outside the spend range \<open>[100, 200]\<close> and whose second
  record has no marginal value.
\<close>

definition view_records :: "scenario list" where
  "view_records =
     [mk_scenario 50000000 150000000 1.0,
      (mk_scenario 100000000 250000000 2.5) \<lparr> marginal_roas_from_137m := None \<rparr>,
      mk_scenario 150000000 330000000 1.5]"

text \<open>A generator for the examples: its state is a counter.\<close>

definition counter_randint :: "nat \<Rightarrow> int \<Rightarrow> int \<Rightarrow> nat \<Rightarrow> int list \<times> nat" where
  "counter_randint g low high n =
     (map (\<lambda>k. low + int (g + k) mod (high - low)) [0..<n], g + n)"

section \<open>Properties of the table primitives\<close>

lemma boolean_index_map: "boolean_index xs (map P xs) = filter P xs"
  by (induction xs) simp_all

lemma map2_conj_map: "map2 (\<and>) (map P xs) (map Q xs) = map (\<lambda>x. P x \<and> Q x) xs"
  by (induction xs) simp_all

lemma find_filter: "find P (filter Q xs) = find (\<lambda>x. Q x \<and> P x) xs"
  by (induction xs) simp_all

lemma find_first_index:
  "find P xs = Some x \<Longrightarrow> \<exists>i < length xs. xs ! i = x \<and> P x \<and> (\<forall>j < i. \<not> P (xs ! j))"
  by (auto simp: find_Some_iff)

lemma sorted_earlier:
  assumes "sorted (map f xs)" and "i < length xs" and "r \<in> set xs" and "f r < f (xs ! i)"
  shows "\<exists>j < i. xs ! j = r"
proof -
  from assms(3) obtain j where j: "j < length xs" "xs ! j = r"
    by (auto simp: in_set_conv_nth)
  have "j < i"
  proof (rule ccontr)
    assume "\<not> j < i"
    then have "i \<le> j" by simp
    then have "map f xs ! i \<le> map f xs ! j"
      using assms(1) j(1) by (intro sorted_nth_mono) simp_all
    then show False using assms(2,4) j by simp
  qed
  then show ?thesis using j by blast
qed

lemma series_max_Max: "s \<noteq> [] \<Longrightarrow> series_max s = Some (Max (set s))"
  by (cases s) (simp_all add: Max.set_eq_fold [symmetric])

lemma series_min_Min: "s \<noteq> [] \<Longrightarrow> series_min s = Some (Min (set s))"
  by (cases s) (simp_all add: Min.set_eq_fold [symmetric])

lemma idxmax_from_spec:
  "length pre = i \<Longrightarrow> bi < i \<Longrightarrow> pre ! bi = bv \<Longrightarrow> \<forall>v \<in> set pre. v \<le> bv \<Longrightarrow>
   \<forall>j < bi. pre ! j < bv \<Longrightarrow>
   idxmax_from bi bv i xs < length (pre @ xs)
   \<and> (\<forall>v \<in> set (pre @ xs). v \<le> (pre @ xs) ! idxmax_from bi bv i xs)
   \<and> (\<forall>j < idxmax_from bi bv i xs. (pre @ xs) ! j < (pre @ xs) ! idxmax_from bi bv i xs)"
proof (induction xs arbitrary: pre i bi bv)
  case Nil
  then show ?case by simp
next
  case (Cons x xs)
  show ?case
  proof (cases "x > bv")
    case True
    have a: "length (pre @ [x]) = Suc i" using Cons.prems by simp
    have b: "(pre @ [x]) ! i = x" using Cons.prems by (simp add: nth_append)
    have c: "\<forall>v \<in> set (pre @ [x]). v \<le> x" using Cons.prems True by fastforce
    have d: "\<forall>j < i. (pre @ [x]) ! j < x"
    proof (intro allI impI)
      fix j assume "j < i"
      then have "pre ! j \<in> set pre" using Cons.prems by simp
      then have "pre ! j \<le> bv" using Cons.prems by blast
      then have "pre ! j < x" using True by linarith
      then show "(pre @ [x]) ! j < x" using \<open>j < i\<close> Cons.prems by (simp add: nth_append)
    qed
    from Cons.IH[OF a _ b c d] True show ?thesis by simp
  next
    case False
    have a: "length (pre @ [x]) = Suc i" using Cons.prems by simp
    have b: "(pre @ [x]) ! bi = bv" using Cons.prems by (simp add: nth_append)
    have c: "\<forall>v \<in> set (pre @ [x]). v \<le> bv" using Cons.prems False by fastforce
    have d: "\<forall>j < bi. (pre @ [x]) ! j < bv" using Cons.prems by (simp add: nth_append)
    have e: "bi < Suc i" using Cons.prems by simp
    from Cons.IH[OF a e b c d] False show ?thesis by simp
  qed
qed

lemma idxmax_spec:
  "s \<noteq> [] \<Longrightarrow> \<exists>k. idxmax s = Inr k \<and> k < length s \<and> (\<forall>v \<in> set s. v \<le> s ! k)
     \<and> (\<forall>j < k. s ! j < s ! k)"
proof (cases s)
  case Nil
  assume "s \<noteq> []" with Nil show ?thesis by simp
next
  case (Cons v vs)
  have "idxmax_from 0 v 1 vs < length ([v] @ vs)
   \<and> (\<forall>w \<in> set ([v] @ vs). w \<le> ([v] @ vs) ! idxmax_from 0 v 1 vs)
   \<and> (\<forall>j < idxmax_from 0 v 1 vs. ([v] @ vs) ! j < ([v] @ vs) ! idxmax_from 0 v 1 vs)"
    by (rule idxmax_from_spec) simp_all
  then show ?thesis using Cons by (simp add: idxmax_def)
qed

lemma set_unique_from: "set (unique_from seen s) = set seen \<union> set s"
  by (induction s arbitrary: seen) auto

lemma set_unique: "set (unique s) = set s"
  by (simp add: unique_def set_unique_from)

lemma rint_of_int [simp]: "rint (of_int n) = n"
  by (simp add: rint_def)

section \<open>Filter Engine: the claims\<close>

lemma filter_engine_filter:
  "filter_engine annual_df (lo, hi) r_min =
     filter (satisfies_filter (currency lo) (currency hi) r_min) annual_df"
proof -
  have "filter_engine annual_df (lo, hi) r_min =
          boolean_index annual_df
            (map (\<lambda>r. (total_annual_spend r \<ge> currency lo \<and> total_annual_spend r \<le> currency hi)
                       \<and> blended_roas r \<ge> r_min) annual_df)"
    by (simp add: filter_engine_def mask_and_def series_ge_def series_le_def column_def
        currency_def map2_conj_map)
  also have "\<dots> = filter (\<lambda>r. (total_annual_spend r \<ge> currency lo
                                  \<and> total_annual_spend r \<le> currency hi)
                                 \<and> blended_roas r \<ge> r_min) annual_df"
    by (rule boolean_index_map)
  also have "\<dots> = filter (satisfies_filter (currency lo) (currency hi) r_min) annual_df"
    by (rule filter_cong) (auto simp: satisfies_filter_def)
  finally show ?thesis .
qed

lemma filter_engine_nonempty:
  "filter_engine annual_df (lo, hi) r_min \<noteq> [] \<Longrightarrow> annual_df \<noteq> []"
  by (auto simp: filter_engine_filter)

text \<open>
  C1. For every scenario table, every spend range \<open>[lo, hi]\<close> and every minimum ROAS
  \<open>r_min\<close>, the Filter Engine returns exactly the records with
  \<open>lo \<le> total_annual_spend \<le> hi\<close> and \<open>blended_roas \<ge> r_min\<close>, in the order of the table:
  every returned record satisfies both conditions, every record of the table that is not
  returned violates one, and a record whose spend equals a bound of a valid range, or whose
  ROAS equals \<open>r_min\<close>, is returned when it meets the other condition.
\<close>

theorem filter_engine_exact:
  "filter_engine annual_df (lo, hi) r_min =
     filter (satisfies_filter (currency lo) (currency hi) r_min) annual_df
   \<and> subseq (filter_engine annual_df (lo, hi) r_min) annual_df
   \<and> (\<forall>rec \<in> set (filter_engine annual_df (lo, hi) r_min).
        currency lo \<le> total_annual_spend rec \<and> total_annual_spend rec \<le> currency hi
        \<and> blended_roas rec \<ge> r_min)
   \<and> (\<forall>rec \<in> set annual_df. rec \<notin> set (filter_engine annual_df (lo, hi) r_min) \<longrightarrow>
        total_annual_spend rec < currency lo \<or> currency hi < total_annual_spend rec
        \<or> blended_roas rec < r_min)
   \<and> (\<forall>rec \<in> set annual_df. lo \<le> hi \<and> blended_roas rec \<ge> r_min
        \<and> (total_annual_spend rec = currency lo \<or> total_annual_spend rec = currency hi) \<longrightarrow>
        rec \<in> set (filter_engine annual_df (lo, hi) r_min))
   \<and> (\<forall>rec \<in> set annual_df. blended_roas rec = r_min
        \<and> currency lo \<le> total_annual_spend rec \<and> total_annual_spend rec \<le> currency hi \<longrightarrow>
        rec \<in> set (filter_engine annual_df (lo, hi) r_min))"
proof -
  have le: "lo \<le> hi \<Longrightarrow> currency lo \<le> currency hi"
    by (simp add: currency_def)
  show ?thesis
    unfolding filter_engine_filter
    using le by (auto simp: satisfies_filter_def)
qed

text \<open>
  At the range \<open>[100, 150]\<close> with \<open>r_min = 2.2\<close> the record at 100M (spend on the lower
  bound) and the record at 150M (spend on the upper bound, ROAS equal to \<open>r_min\<close>) are
  returned, the record at 200M is not.
\<close>

theorem filter_engine_exact_witness:
  "filter_engine
     [mk_scenario 100000000 250000000 2.5, mk_scenario 150000000 330000000 2.2,
      mk_scenario 200000000 360000000 1.8] (100, 150) 2.2
   = [mk_scenario 100000000 250000000 2.5, mk_scenario 150000000 330000000 2.2]"
  using filter_engine_exact
    [of "[mk_scenario 100000000 250000000 2.5, mk_scenario 150000000 330000000 2.2,
          mk_scenario 200000000 360000000 1.8]" 100 150 "2.2"]
  by (simp add: satisfies_filter_def currency_def mk_scenario_def)

text \<open>
  C8. Applying the Filter Engine with the same arguments to its own output returns that
  output unchanged.
\<close>

theorem filter_engine_idempotent:
  "filter_engine (filter_engine annual_df (lo, hi) r_min) (lo, hi) r_min =
     filter_engine annual_df (lo, hi) r_min"
  by (simp add: filter_engine_filter)

theorem filter_engine_idempotent_witness:
  "filter_engine
     (filter_engine
        [mk_scenario 100000000 250000000 2.5, mk_scenario 150000000 330000000 2.2,
         mk_scenario 200000000 360000000 1.8] (100, 150) 2.2) (100, 150) 2.2
   = [mk_scenario 100000000 250000000 2.5, mk_scenario 150000000 330000000 2.2]"
  using filter_engine_idempotent
    [of "[mk_scenario 100000000 250000000 2.5, mk_scenario 150000000 330000000 2.2,
          mk_scenario 200000000 360000000 1.8]" 100 150 "2.2"]
  by (simp add: filter_engine_filter satisfies_filter_def currency_def mk_scenario_def)

section \<open>Metric Summarizer: the claims\<close>

lemma metric_summarizer_general:
  assumes "filtered_df = filter_engine annual_df (lo, hi) r_min" and "filtered_df \<noteq> []"
  shows "\<exists>k cards. metric_summarizer annual_df filtered_df = Inr cards
        \<and> total_scenarios cards = length filtered_df
        \<and> max_annual_sales cards =
            Some (Some (Max (set (column total_annual_sales filtered_df))),
                  Some (Max (set (column total_annual_sales filtered_df)) / 1000000
                        - Min (set (column total_annual_sales annual_df)) / 1000000))
        \<and> best_roas cards =
            Some (Some (Max (set (column blended_roas filtered_df))),
                  Some (Max (set (column blended_roas filtered_df))
                        - Min (set (column blended_roas annual_df))))
        \<and> k < length filtered_df
        \<and> optimal_spend cards = Some (total_annual_spend (filtered_df ! k))
        \<and> blended_roas (filtered_df ! k) = Max (set (column blended_roas filtered_df))
        \<and> (\<forall>j < k. blended_roas (filtered_df ! j) < blended_roas (filtered_df ! k))"
proof -
  have ne: "annual_df \<noteq> []"
    using assms filter_engine_nonempty by blast
  have cne: "column blended_roas filtered_df \<noteq> []"
    using assms(2) by (simp add: column_def)
  from idxmax_spec [OF cne] obtain k where k:
    "idxmax (column blended_roas filtered_df) = Inr k"
    "k < length (column blended_roas filtered_df)"
    "\<forall>v \<in> set (column blended_roas filtered_df). v \<le> column blended_roas filtered_df ! k"
    "\<forall>j < k. column blended_roas filtered_df ! j < column blended_roas filtered_df ! k"
    by blast
  have klen: "k < length filtered_df"
    using k(2) by (simp add: column_def)
  have nthk: "column blended_roas filtered_df ! k = blended_roas (filtered_df ! k)"
    using klen by (simp add: column_def)
  have mx: "blended_roas (filtered_df ! k) = Max (set (column blended_roas filtered_df))"
  proof (rule sym, rule Max_eqI)
    show "finite (set (column blended_roas filtered_df))" by simp
    show "\<And>y. y \<in> set (column blended_roas filtered_df) \<Longrightarrow> y \<le> blended_roas (filtered_df ! k)"
      using k(3) nthk by simp
    show "blended_roas (filtered_df ! k) \<in> set (column blended_roas filtered_df)"
      using k(2) nthk nth_mem by metis
  qed
  have first: "\<forall>j < k. blended_roas (filtered_df ! j) < blended_roas (filtered_df ! k)"
  proof (intro allI impI)
    fix j assume "j < k"
    then have "column blended_roas filtered_df ! j < column blended_roas filtered_df ! k"
      using k(4) by blast
    then show "blended_roas (filtered_df ! j) < blended_roas (filtered_df ! k)"
      using \<open>j < k\<close> klen by (simp add: column_def)
  qed
  have s1: "series_max (column total_annual_sales filtered_df)
              = Some (Max (set (column total_annual_sales filtered_df)))"
    using assms(2) by (intro series_max_Max) (simp add: column_def)
  have s2: "series_min (column total_annual_sales annual_df)
              = Some (Min (set (column total_annual_sales annual_df)))"
    using ne by (intro series_min_Min) (simp add: column_def)
  have s3: "series_max (column blended_roas filtered_df)
              = Some (Max (set (column blended_roas filtered_df)))"
    using cne by (rule series_max_Max)
  have s4: "series_min (column blended_roas annual_df)
              = Some (Min (set (column blended_roas annual_df)))"
    using ne by (intro series_min_Min) (simp add: column_def)
  have "metric_summarizer annual_df filtered_df =
          Inr \<lparr> total_scenarios = length filtered_df,
                from_filters = int (length filtered_df) - int (length annual_df),
                max_annual_sales =
                  Some (Some (Max (set (column total_annual_sales filtered_df))),
                        Some (Max (set (column total_annual_sales filtered_df)) / 1000000
                              - Min (set (column total_annual_sales annual_df)) / 1000000)),
                best_roas =
                  Some (Some (Max (set (column blended_roas filtered_df))),
                        Some (Max (set (column blended_roas filtered_df))
                              - Min (set (column blended_roas annual_df)))),
                optimal_spend = Some (total_annual_spend (filtered_df ! k)) \<rparr>"
    using assms(2) by (simp add: metric_summarizer_def k(1) s1 s2 s3 s4 nan_sub_def nan_div_def)
  then show ?thesis
    using klen mx first by auto
qed

lemma summary_filter: "filter_engine summary_records (0, 200) 0 = summary_records"
  by (simp add: filter_engine_filter satisfies_filter_def currency_def summary_records_def
      mk_scenario_def)

lemma summary_example:
  "metric_summarizer summary_records summary_records
     = Inr \<lparr> total_scenarios = 2, from_filters = 0,
             max_annual_sales = Some (Some 400000000, Some 150),
             best_roas = Some (Some 2.5, Some 0.5),
             optimal_spend = Some 100000000 \<rparr>"
  by (simp add: summary_records_def mk_scenario_def metric_summarizer_def column_def
      idxmax_def nan_sub_def nan_div_def)

text \<open>
  C4. For every non-empty filtered table the Metric Summarizer returns the cards without
  an exception: the count of records; the maximum of \<open>total_annual_sales\<close> with its
  difference (in millions) to the minimum of \<open>total_annual_sales\<close> over the unfiltered
  table; the maximum of \<open>blended_roas\<close> with its difference to the minimum of
  \<open>blended_roas\<close> over the unfiltered table; and the \<open>total_annual_spend\<close> of the first
  record, in table order, that attains the maximum of \<open>blended_roas\<close>. On the table
  \<open>[(100M, 250M, 2.5), (200M, 400M, 2.0)]\<close> the maximum of the sales is 400M, the maximum
  ROAS is 2.5 and the spend at the maximum ROAS is 100M.
\<close>

theorem metric_summarizer_correct:
  "(filtered_df = filter_engine annual_df (lo, hi) r_min \<and> filtered_df \<noteq> [] \<longrightarrow>
      (\<exists>k cards. metric_summarizer annual_df filtered_df = Inr cards
        \<and> total_scenarios cards = length filtered_df
        \<and> max_annual_sales cards =
            Some (Some (Max (set (column total_annual_sales filtered_df))),
                  Some (Max (set (column total_annual_sales filtered_df)) / 1000000
                        - Min (set (column total_annual_sales annual_df)) / 1000000))
        \<and> best_roas cards =
            Some (Some (Max (set (column blended_roas filtered_df))),
                  Some (Max (set (column blended_roas filtered_df))
                        - Min (set (column blended_roas annual_df))))
        \<and> k < length filtered_df
        \<and> optimal_spend cards = Some (total_annual_spend (filtered_df ! k))
        \<and> blended_roas (filtered_df ! k) = Max (set (column blended_roas filtered_df))
        \<and> (\<forall>j < k. blended_roas (filtered_df ! j) < blended_roas (filtered_df ! k))))
   \<and> metric_summarizer summary_records (filter_engine summary_records (0, 200) 0)
       = Inr \<lparr> total_scenarios = 2, from_filters = 0,
               max_annual_sales = Some (Some 400000000, Some 150),
               best_roas = Some (Some 2.5, Some 0.5),
               optimal_spend = Some 100000000 \<rparr>"
proof (intro conjI impI)
  assume a: "filtered_df = filter_engine annual_df (lo, hi) r_min \<and> filtered_df \<noteq> []"
  have "filtered_df = filter_engine annual_df (lo, hi) r_min"
    using a by (rule conjunct1)
  moreover have "filtered_df \<noteq> []"
    using a by (rule conjunct2)
  ultimately show "\<exists>k cards. metric_summarizer annual_df filtered_df = Inr cards
        \<and> total_scenarios cards = length filtered_df
        \<and> max_annual_sales cards =
            Some (Some (Max (set (column total_annual_sales filtered_df))),
                  Some (Max (set (column total_annual_sales filtered_df)) / 1000000
                        - Min (set (column total_annual_sales annual_df)) / 1000000))
        \<and> best_roas cards =
            Some (Some (Max (set (column blended_roas filtered_df))),
                  Some (Max (set (column blended_roas filtered_df))
                        - Min (set (column blended_roas annual_df))))
        \<and> k < length filtered_df
        \<and> optimal_spend cards = Some (total_annual_spend (filtered_df ! k))
        \<and> blended_roas (filtered_df ! k) = Max (set (column blended_roas filtered_df))
        \<and> (\<forall>j < k. blended_roas (filtered_df ! j) < blended_roas (filtered_df ! k))"
    by (rule metric_summarizer_general)
next
  show "metric_summarizer summary_records (filter_engine summary_records (0, 200) 0)
       = Inr \<lparr> total_scenarios = 2, from_filters = 0,
               max_annual_sales = Some (Some 400000000, Some 150),
               best_roas = Some (Some 2.5, Some 0.5),
               optimal_spend = Some 100000000 \<rparr>"
    by (simp only: summary_filter summary_example)
qed

text \<open>
  With two records that share the best ROAS the spend of the first one is reported.
\<close>

theorem metric_summarizer_correct_witness:
  "filter_engine tied_records (0, 300) 0 \<noteq> []
   \<and> (\<exists>cards. metric_summarizer tied_records (filter_engine tied_records (0, 300) 0) = Inr cards
        \<and> total_scenarios cards = 3
        \<and> max_annual_sales cards = Some (Some 750000000, Some 500)
        \<and> best_roas cards = Some (Some 2.5, Some 0.5)
        \<and> optimal_spend cards = Some 100000000)"
proof -
  have f: "filter_engine tied_records (0, 300) 0 = tied_records"
    by (simp add: filter_engine_filter satisfies_filter_def currency_def tied_records_def
        mk_scenario_def)
  have ne: "tied_records \<noteq> []"
    by (simp add: tied_records_def)
  have ev: "metric_summarizer tied_records tied_records
     = Inr \<lparr> total_scenarios = 3, from_filters = 0,
             max_annual_sales = Some (Some 750000000, Some 500),
             best_roas = Some (Some 2.5, Some 0.5),
             optimal_spend = Some 100000000 \<rparr>"
    by (simp add: tied_records_def mk_scenario_def metric_summarizer_def column_def
        idxmax_def nan_sub_def nan_div_def)
  from metric_summarizer_correct [of tied_records tied_records 0 300 0] f ne
  have "\<exists>k cards. metric_summarizer tied_records tied_records = Inr cards
        \<and> total_scenarios cards = length tied_records
        \<and> k < length tied_records
        \<and> optimal_spend cards = Some (total_annual_spend (tied_records ! k))
        \<and> (\<forall>j < k. blended_roas (tied_records ! j) < blended_roas (tied_records ! k))"
    by auto
  then show ?thesis
    unfolding f using ne ev by simp
qed

section \<open>Threshold Scanner: the claims\<close>

lemma dropna_filter: "dropna_137m df = filter (\<lambda>r. notna (marginal_roas_from_137m r)) df"
  by (simp add: dropna_137m_def series_notna_def column_def boolean_index_map comp_def)

lemma crossing_find: "crossing md t = find (below t) md"
proof -
  have "boolean_index md (series_lt_nan (column marginal_roas_from_137m md) t) = filter (below t) md"
    unfolding series_lt_nan_def column_def map_map comp_def below_def[symmetric, abs_def]
    by (simp add: boolean_index_map below_def[abs_def])
  moreover have "(case filter P xs of [] \<Rightarrow> None | x # _ \<Rightarrow> Some x) = find P xs" for P :: "scenario \<Rightarrow> bool" and xs
    by (induction xs) simp_all
  ultimately show ?thesis by (simp add: crossing_def)
qed

lemma below_Some: "below t r \<longleftrightarrow> (\<exists>v. marginal_roas_from_137m r = Some v \<and> v < t)"
  by (cases "marginal_roas_from_137m r") (simp_all add: below_def)

lemma below_notna: "below t r \<Longrightarrow> notna (marginal_roas_from_137m r)"
  by (cases "marginal_roas_from_137m r") (simp_all add: below_def)

lemma crossing_None_iff: "crossing md t = None \<longleftrightarrow> (\<forall>r \<in> set md. \<not> below t r)"
  by (auto simp: crossing_find find_None_iff)

lemma dropna_all_present:
  "r \<in> set (dropna_137m df) \<Longrightarrow> \<exists>w. marginal_roas_from_137m r = Some w"
  by (cases "marginal_roas_from_137m r") (auto simp: dropna_filter)

lemma not_below_present:
  "r \<in> set (dropna_137m df) \<Longrightarrow> \<not> below t r \<Longrightarrow>
     \<exists>w. marginal_roas_from_137m r = Some w \<and> w \<ge> t"
  using dropna_all_present [of r df] by (auto simp: below_def)

lemma crossing_row_sel [simp]:
  "row_threshold (crossing_row t c) = t"
  "row_annual_spend (crossing_row t c) = total_annual_spend c"
  "row_incremental (crossing_row t c) = total_annual_spend c - reference_baseline_spend"
  "row_annual_sales (crossing_row t c) = total_annual_sales c"
  "row_blended_roas (crossing_row t c) = blended_roas c"
  by (simp_all add: crossing_row_def)

lemma loop_thresholds:
  "map row_threshold (threshold_loop ths md) = filter (\<lambda>t. crossing md t \<noteq> None) ths"
  by (induction ths) (auto simp: crossing_row_def split: option.splits)

lemma loop_rows:
  "row \<in> set (threshold_loop ths md) \<Longrightarrow>
     \<exists>t c. t \<in> set ths \<and> crossing md t = Some c \<and> row = crossing_row t c"
  by (induction ths) (auto split: option.splits)

lemma scanner_row:
  assumes "row \<in> set (threshold_analysis ths filtered_df)"
  shows "\<exists>i < length (dropna_137m filtered_df).
           row = crossing_row (row_threshold row) (dropna_137m filtered_df ! i)
           \<and> (\<exists>v. marginal_roas_from_137m (dropna_137m filtered_df ! i) = Some v
                  \<and> v < row_threshold row)
           \<and> (\<forall>j < i. \<exists>w. marginal_roas_from_137m (dropna_137m filtered_df ! j) = Some w
                  \<and> w \<ge> row_threshold row)
           \<and> (sorted (column total_annual_spend (dropna_137m filtered_df)) \<longrightarrow>
                (\<forall>r \<in> set (dropna_137m filtered_df).
                   total_annual_spend r < total_annual_spend (dropna_137m filtered_df ! i) \<longrightarrow>
                   (\<exists>w. marginal_roas_from_137m r = Some w \<and> w \<ge> row_threshold row)))"
proof -
  define md where "md = dropna_137m filtered_df"
  define t where "t = row_threshold row"
  from assms obtain t' c where c': "crossing md t' = Some c" "row = crossing_row t' c"
    unfolding threshold_analysis_def md_def using loop_rows by blast
  have tt: "t = t'" by (simp add: t_def c'(2))
  have c: "crossing md t = Some c" "row = crossing_row t c"
    unfolding tt by (rule c'(1), rule c'(2))
  from c(1) have "find (below t) md = Some c"
    by (simp add: crossing_find)
  from find_first_index [OF this]
  obtain i where i: "i < length md" "md ! i = c" "below t c" "\<forall>j < i. \<not> below t (md ! j)"
    by blast
  have pre: "\<forall>j < i. \<exists>w. marginal_roas_from_137m (md ! j) = Some w \<and> w \<ge> t"
  proof (intro allI impI)
    fix j assume "j < i"
    then have "md ! j \<in> set (dropna_137m filtered_df)" using i(1) by (simp add: md_def)
    moreover have "\<not> below t (md ! j)" using i(4) \<open>j < i\<close> by blast
    ultimately show "\<exists>w. marginal_roas_from_137m (md ! j) = Some w \<and> w \<ge> t"
      by (rule not_below_present)
  qed
  have srt: "sorted (column total_annual_spend md) \<longrightarrow>
                (\<forall>r \<in> set md. total_annual_spend r < total_annual_spend (md ! i) \<longrightarrow>
                   (\<exists>w. marginal_roas_from_137m r = Some w \<and> w \<ge> t))"
  proof (intro impI ballI)
    fix r
    assume s: "sorted (column total_annual_spend md)" and r: "r \<in> set md"
      and lt: "total_annual_spend r < total_annual_spend (md ! i)"
    from s have "sorted (map total_annual_spend md)" by (simp add: column_def)
    from sorted_earlier [OF this i(1) r lt] obtain j where "j < i" "md ! j = r" by blast
    then show "\<exists>w. marginal_roas_from_137m r = Some w \<and> w \<ge> t" using pre by blast
  qed
  have B: "\<exists>v. marginal_roas_from_137m (md ! i) = Some v \<and> v < t"
    using i(2,3) by (simp add: below_Some)
  have A: "row = crossing_row t (md ! i)"
    using c(2) i(2) by simp
  show ?thesis
    unfolding md_def [symmetric] t_def [symmetric]
  proof (intro exI [of _ i] conjI)
    show "i < length md" by (rule i(1))
    show "row = crossing_row t (md ! i)" by (rule A)
    show "\<exists>v. marginal_roas_from_137m (md ! i) = Some v \<and> v < t" by (rule B)
    show "\<forall>j < i. \<exists>w. marginal_roas_from_137m (md ! j) = Some w \<and> w \<ge> t" by (rule pre)
    show "sorted (column total_annual_spend md) \<longrightarrow>
                (\<forall>r \<in> set md. total_annual_spend r < total_annual_spend (md ! i) \<longrightarrow>
                   (\<exists>w. marginal_roas_from_137m r = Some w \<and> w \<ge> t))" by (rule srt)
  qed
qed

lemma scanner_thresholds:
  "map row_threshold (threshold_analysis ths filtered_df) =
     filter (\<lambda>t. \<exists>r \<in> set (dropna_137m filtered_df). below t r) ths"
  by (simp add: threshold_analysis_def loop_thresholds crossing_None_iff)

lemma scanner_example:
  "map (\<lambda>row. (row_threshold row, row_annual_spend row))
       (threshold_analysis [3.0, 2.5, 2.0] example_records)
   = [(3.0, 150000000), (2.5, 150000000), (2.0, 200000000)]"
  by (simp add: threshold_analysis_def dropna_filter example_records_def mk_scenario_def
      crossing_find below_def crossing_row_def)

text \<open>
  C2, amended. The thresholds that the Threshold Scanner reports are the input thresholds
  that have a record strictly below them, in the order of the input list (a subsequence of
  it); a threshold with no record strictly below it is left out. For each reported
  threshold the crossing is the first record of the scanned table whose marginal value is
  strictly below the threshold: every record before it has a value of at least the
  threshold, and so has, in a table in ascending order of spend, every record of smaller
  spend. On the records \<open>[(100M, 3.0), (150M, 2.2), (200M, 1.8)]\<close> with the thresholds
  \<open>[3.0, 2.5, 2.0]\<close> the scanner reports a crossing for 3.0 at 150M (the record at 100M
  equals 3.0, the record at 150M is the first strictly below it), for 2.5 at 150M and for
  2.0 at 200M.
\<close>

theorem threshold_scanner_crossings:
  "map row_threshold (threshold_analysis ths filtered_df) =
     filter (\<lambda>t. \<exists>r \<in> set (dropna_137m filtered_df). below t r) ths
   \<and> subseq (map row_threshold (threshold_analysis ths filtered_df)) ths
   \<and> (\<forall>row \<in> set (threshold_analysis ths filtered_df).
        \<exists>i < length (dropna_137m filtered_df).
           row = crossing_row (row_threshold row) (dropna_137m filtered_df ! i)
           \<and> (\<exists>v. marginal_roas_from_137m (dropna_137m filtered_df ! i) = Some v
                  \<and> v < row_threshold row)
           \<and> (\<forall>j < i. \<exists>w. marginal_roas_from_137m (dropna_137m filtered_df ! j) = Some w
                  \<and> w \<ge> row_threshold row)
           \<and> (sorted (column total_annual_spend (dropna_137m filtered_df)) \<longrightarrow>
                (\<forall>r \<in> set (dropna_137m filtered_df).
                   total_annual_spend r < total_annual_spend (dropna_137m filtered_df ! i) \<longrightarrow>
                   (\<exists>w. marginal_roas_from_137m r = Some w \<and> w \<ge> row_threshold row))))
   \<and> (\<forall>t \<in> set ths. (\<forall>r \<in> set (dropna_137m filtered_df). \<not> below t r) \<longrightarrow>
        t \<notin> set (map row_threshold (threshold_analysis ths filtered_df)))
   \<and> map (\<lambda>row. (row_threshold row, row_annual_spend row))
       (threshold_analysis [3.0, 2.5, 2.0] example_records)
     = [(3.0, 150000000), (2.5, 150000000), (2.0, 200000000)]"
proof (intro conjI)
  show "map row_threshold (threshold_analysis ths filtered_df) =
     filter (\<lambda>t. \<exists>r \<in> set (dropna_137m filtered_df). below t r) ths"
    by (rule scanner_thresholds)
  show "subseq (map row_threshold (threshold_analysis ths filtered_df)) ths"
    by (simp add: scanner_thresholds)
  show "\<forall>t \<in> set ths. (\<forall>r \<in> set (dropna_137m filtered_df). \<not> below t r) \<longrightarrow>
        t \<notin> set (map row_threshold (threshold_analysis ths filtered_df))"
    by (simp add: scanner_thresholds)
  show "map (\<lambda>row. (row_threshold row, row_annual_spend row))
       (threshold_analysis [3.0, 2.5, 2.0] example_records)
     = [(3.0, 150000000), (2.5, 150000000), (2.0, 200000000)]"
    by (rule scanner_example)
  show "\<forall>row \<in> set (threshold_analysis ths filtered_df).
        \<exists>i < length (dropna_137m filtered_df).
           row = crossing_row (row_threshold row) (dropna_137m filtered_df ! i)
           \<and> (\<exists>v. marginal_roas_from_137m (dropna_137m filtered_df ! i) = Some v
                  \<and> v < row_threshold row)
           \<and> (\<forall>j < i. \<exists>w. marginal_roas_from_137m (dropna_137m filtered_df ! j) = Some w
                  \<and> w \<ge> row_threshold row)
           \<and> (sorted (column total_annual_spend (dropna_137m filtered_df)) \<longrightarrow>
                (\<forall>r \<in> set (dropna_137m filtered_df).
                   total_annual_spend r < total_annual_spend (dropna_137m filtered_df ! i) \<longrightarrow>
                   (\<exists>w. marginal_roas_from_137m r = Some w \<and> w \<ge> row_threshold row)))"
    by (intro ballI) (rule scanner_row)
qed

text \<open>
  With the further threshold 1.5, which no record is below, the reported thresholds are
  3.0, 2.5 and 2.0.
\<close>

theorem threshold_scanner_crossings_witness:
  "map row_threshold (threshold_analysis [3.0, 2.5, 2.0, 1.5] example_records) = [3.0, 2.5, 2.0]
   \<and> sorted (column total_annual_spend (dropna_137m example_records))"
proof -
  have md: "dropna_137m example_records = example_records"
    by (simp add: dropna_filter example_records_def mk_scenario_def)
  have ev: "filter (\<lambda>t. \<exists>r \<in> set example_records. below t r) [3.0, 2.5, 2.0, 1.5]
              = [3.0, 2.5, 2.0]"
    by (simp add: example_records_def mk_scenario_def below_def)
  have srt: "sorted (column total_annual_spend example_records)"
    by (simp add: example_records_def mk_scenario_def column_def)
  from threshold_scanner_crossings [of "[3.0, 2.5, 2.0, 1.5]" example_records]
  have "map row_threshold (threshold_analysis [3.0, 2.5, 2.0, 1.5] example_records)
          = filter (\<lambda>t. \<exists>r \<in> set (dropna_137m example_records). below t r)
              [3.0, 2.5, 2.0, 1.5]"
    by (rule conjunct1)
  then show ?thesis using md ev srt by simp
qed

text \<open>
  The example as the specification states it, with crossings only for 2.5 and 2.0, does
  not hold: 3.0 is reported as well.
\<close>

theorem threshold_scanner_example_counterexample:
  "map row_threshold (threshold_analysis [3.0, 2.5, 2.0] example_records) = [3.0, 2.5, 2.0]
   \<and> map row_threshold (threshold_analysis [3.0, 2.5, 2.0] example_records) \<noteq> [2.5, 2.0]"
  by (simp add: threshold_analysis_def dropna_filter example_records_def mk_scenario_def
      crossing_find below_def)

text \<open>
  C5. For every crossing that the Threshold Scanner reports, the incremental spend is
  the \<open>total_annual_spend\<close> of the crossing record minus the reference baseline spend, one
  constant for every threshold and every crossing. The constant, which the dashboard
  labels \<open>$137M\<close>, is 137,200,000.
\<close>

theorem incremental_spend_from_baseline:
  "reference_baseline_spend = 137200000
   \<and> (\<forall>row \<in> set (threshold_analysis ths filtered_df).
        \<exists>c. crossing (dropna_137m filtered_df) (row_threshold row) = Some c
           \<and> row_annual_spend row = total_annual_spend c
           \<and> row_incremental row = total_annual_spend c - reference_baseline_spend)"
proof (intro conjI ballI)
  show "reference_baseline_spend = 137200000" by (simp add: reference_baseline_spend_def)
next
  fix row assume "row \<in> set (threshold_analysis ths filtered_df)"
  then obtain t c where "crossing (dropna_137m filtered_df) t = Some c"
    "row = crossing_row t c"
    unfolding threshold_analysis_def using loop_rows by blast
  then show "\<exists>c. crossing (dropna_137m filtered_df) (row_threshold row) = Some c
           \<and> row_annual_spend row = total_annual_spend c
           \<and> row_incremental row = total_annual_spend c - reference_baseline_spend"
    by simp
qed

theorem incremental_spend_from_baseline_witness:
  "map row_incremental (threshold_analysis marginal_thresholds example_records)
     = [12800000, 12800000, 62800000]"
proof -
  have ev: "threshold_analysis marginal_thresholds example_records =
              [crossing_row 3.0 (mk_scenario 150000000 330000000 2.2),
               crossing_row 2.5 (mk_scenario 150000000 330000000 2.2),
               crossing_row 2.0 (mk_scenario 200000000 360000000 1.8)]"
    by (simp add: threshold_analysis_def marginal_thresholds_def dropna_filter
        example_records_def mk_scenario_def crossing_find below_def)
  from incremental_spend_from_baseline [of marginal_thresholds example_records]
  have "\<forall>row \<in> set (threshold_analysis marginal_thresholds example_records).
          \<exists>c. crossing (dropna_137m example_records) (row_threshold row) = Some c
             \<and> row_annual_spend row = total_annual_spend c
             \<and> row_incremental row = total_annual_spend c - reference_baseline_spend"
    by (rule conjunct2)
  then have "\<forall>row \<in> set (threshold_analysis marginal_thresholds example_records).
          row_incremental row = row_annual_spend row - 137200000"
    by (auto simp: reference_baseline_spend_def)
  then show ?thesis
    unfolding ev by (simp add: crossing_row_def mk_scenario_def)
qed

lemma crossing_filtered_view:
  "crossing (dropna_137m (filter_engine annual_df (lo, hi) r_min)) t =
     find (\<lambda>r. satisfies_filter (currency lo) (currency hi) r_min r \<and> below t r) annual_df"
proof -
  have "crossing (dropna_137m (filter_engine annual_df (lo, hi) r_min)) t =
          find (\<lambda>r. satisfies_filter (currency lo) (currency hi) r_min r
                     \<and> notna (marginal_roas_from_137m r) \<and> below t r) annual_df"
    by (simp add: crossing_find dropna_filter filter_engine_filter find_filter)
  also have "\<dots> = find (\<lambda>r. satisfies_filter (currency lo) (currency hi) r_min r \<and> below t r)
                      annual_df"
    by (rule arg_cong [where f = "\<lambda>P. find P annual_df"]) (auto simp: below_notna)
  finally show ?thesis .
qed

text \<open>
  C10. Every crossing that the Threshold Scanner reports is a record of the filtered
  view: it satisfies the spend range and the minimum ROAS and has a marginal value. A
  record that the filter excludes or that has no marginal value is never a crossing, and
  the crossing for a threshold is the first record of the scenario table that passes the
  filter and has a marginal value below the threshold.
\<close>

theorem crossings_within_filtered_view:
  "(\<forall>row \<in> set (threshold_analysis ths (filter_engine annual_df (lo, hi) r_min)).
      \<exists>c \<in> set (filter_engine annual_df (lo, hi) r_min).
         row = crossing_row (row_threshold row) c
         \<and> crossing (dropna_137m (filter_engine annual_df (lo, hi) r_min)) (row_threshold row)
             = Some c
         \<and> satisfies_filter (currency lo) (currency hi) r_min c
         \<and> (\<exists>v. marginal_roas_from_137m c = Some v \<and> v < row_threshold row))
   \<and> (\<forall>rec t. \<not> satisfies_filter (currency lo) (currency hi) r_min rec
                \<or> marginal_roas_from_137m rec = None \<longrightarrow>
        crossing (dropna_137m (filter_engine annual_df (lo, hi) r_min)) t \<noteq> Some rec)
   \<and> (\<forall>t. crossing (dropna_137m (filter_engine annual_df (lo, hi) r_min)) t =
        find (\<lambda>r. satisfies_filter (currency lo) (currency hi) r_min r \<and> below t r) annual_df)"
proof (intro conjI ballI allI impI)
  fix row
  assume "row \<in> set (threshold_analysis ths (filter_engine annual_df (lo, hi) r_min))"
  then obtain t c where c:
    "crossing (dropna_137m (filter_engine annual_df (lo, hi) r_min)) t = Some c"
    "row = crossing_row t c"
    unfolding threshold_analysis_def using loop_rows by blast
  from c(1) have f: "find (\<lambda>r. satisfies_filter (currency lo) (currency hi) r_min r
                       \<and> below t r) annual_df = Some c"
    by (simp add: crossing_filtered_view)
  then have "c \<in> set annual_df" "satisfies_filter (currency lo) (currency hi) r_min c"
    "below t c"
    by (auto simp: find_Some_iff)
  then show "\<exists>c \<in> set (filter_engine annual_df (lo, hi) r_min).
         row = crossing_row (row_threshold row) c
         \<and> crossing (dropna_137m (filter_engine annual_df (lo, hi) r_min)) (row_threshold row)
             = Some c
         \<and> satisfies_filter (currency lo) (currency hi) r_min c
         \<and> (\<exists>v. marginal_roas_from_137m c = Some v \<and> v < row_threshold row)"
    using c by (auto simp: filter_engine_filter below_Some)
next
  fix rec t
  assume a: "\<not> satisfies_filter (currency lo) (currency hi) r_min rec
                \<or> marginal_roas_from_137m rec = None"
  show "crossing (dropna_137m (filter_engine annual_df (lo, hi) r_min)) t \<noteq> Some rec"
  proof
    assume "crossing (dropna_137m (filter_engine annual_df (lo, hi) r_min)) t = Some rec"
    then have "satisfies_filter (currency lo) (currency hi) r_min rec \<and> below t rec"
      by (auto simp: crossing_filtered_view find_Some_iff)
    with a show False by (auto simp: below_Some)
  qed
next
  fix t
  show "crossing (dropna_137m (filter_engine annual_df (lo, hi) r_min)) t =
        find (\<lambda>r. satisfies_filter (currency lo) (currency hi) r_min r \<and> below t r) annual_df"
    by (rule crossing_filtered_view)
qed

text \<open>
  In \<open>view_records\<close> the first record below 2.0 in the whole table is the one at 50M, which
  the range \<open>[100, 200]\<close> excludes; the record at 100M has no marginal value; the crossing
  reported is the record at 150M.
\<close>

theorem crossings_within_filtered_view_witness:
  "map row_annual_spend (threshold_analysis [2.0] (filter_engine view_records (100, 200) 0))
     = [150000000]
   \<and> crossing (dropna_137m view_records) 2.0 = Some (mk_scenario 50000000 150000000 1.0)"
proof -
  have ev: "find (\<lambda>r. satisfies_filter (currency 100) (currency 200) 0 r \<and> below 2.0 r)
              view_records = Some (mk_scenario 150000000 330000000 1.5)"
    by (simp add: view_records_def mk_scenario_def satisfies_filter_def currency_def below_def)
  from crossings_within_filtered_view [of "[2.0]" view_records 100 200 0]
  have "\<forall>t. crossing (dropna_137m (filter_engine view_records (100, 200) 0)) t =
        find (\<lambda>r. satisfies_filter (currency 100) (currency 200) 0 r \<and> below t r) view_records"
    by blast
  then have "crossing (dropna_137m (filter_engine view_records (100, 200) 0)) 2.0
               = Some (mk_scenario 150000000 330000000 1.5)"
    using ev by simp
  then have "map row_annual_spend
               (threshold_analysis [2.0] (filter_engine view_records (100, 200) 0))
             = [150000000]"
    by (simp add: threshold_analysis_def mk_scenario_def)
  moreover have "crossing (dropna_137m view_records) 2.0
                   = Some (mk_scenario 50000000 150000000 1.0)"
    by (simp add: crossing_find dropna_filter view_records_def mk_scenario_def below_def)
  ultimately show ?thesis by simp
qed

section \<open>Scenario Comparator: the claims\<close>

lemma scenario_lookup_find:
  "scenario_lookup df (Some target) =
     (case find (within_tolerance target) df of None \<Rightarrow> Inl IndexError | Some r \<Rightarrow> Inr r)"
proof -
  have "boolean_index df
          (mask_and (series_ge (column total_annual_spend df) (target * 0.99))
                    (series_le (column total_annual_spend df) (target * 1.01)))
        = filter (within_tolerance target) df"
  proof -
    have "boolean_index df
          (mask_and (series_ge (column total_annual_spend df) (target * 0.99))
                    (series_le (column total_annual_spend df) (target * 1.01)))
        = boolean_index df (map (\<lambda>r. total_annual_spend r \<ge> target * 0.99
                                        \<and> total_annual_spend r \<le> target * 1.01) df)"
      by (simp add: mask_and_def series_ge_def series_le_def column_def map2_conj_map)
    also have "\<dots> = filter (\<lambda>r. total_annual_spend r \<ge> target * 0.99
                                        \<and> total_annual_spend r \<le> target * 1.01) df"
      by (rule boolean_index_map)
    also have "\<dots> = filter (within_tolerance target) df"
      by (rule filter_cong) (auto simp: within_tolerance_def mult.commute)
    finally show ?thesis .
  qed
  moreover have "(case filter P xs of [] \<Rightarrow> Inl IndexError | x # _ \<Rightarrow> Inr x) =
                 (case find P xs of None \<Rightarrow> Inl IndexError | Some r \<Rightarrow> Inr r)"
    for P :: "scenario \<Rightarrow> bool" and xs
    by (induction xs) simp_all
  ultimately show ?thesis by (simp add: scenario_lookup_def)
qed

lemma comparison_three:
  "comparison_loop 1 [Some t1, Some t2, Some t3] df =
     (case find (within_tolerance t1) df of
        None \<Rightarrow> Inl IndexError
      | Some a \<Rightarrow>
          (case find (within_tolerance t2) df of
             None \<Rightarrow> Inl IndexError
           | Some b \<Rightarrow>
               (case find (within_tolerance t3) df of
                  None \<Rightarrow> Inl IndexError
                | Some c \<Rightarrow>
                    Inr [comparison_row 1 a, comparison_row 2 b, comparison_row 3 c])))"
  by (simp add: scenario_lookup_find numeral_2_eq_2 numeral_3_eq_3 split: option.splits)

lemma options_small: "scenario_options small_spend_records = [1000000, 3000000]"
proof -
  have "rint (14 / 10) = 1" by (simp add: rint_def)
  moreover have "rint 3 = 3" using rint_of_int [of 3] by simp
  ultimately have "round_millions 1400000 = 1000000" "round_millions 3000000 = 3000000"
    by (simp_all add: round_millions_def)
  then show ?thesis
    by (simp add: scenario_options_def unique_def column_def small_spend_records_def
        mk_scenario_def)
qed

lemma rint_nearest:
  "\<bar>x - of_int (rint x)\<bar> \<le> 1 / 2
   \<and> (\<bar>x - of_int (rint x)\<bar> = 1 / 2 \<longrightarrow> even (rint x))"
proof -
  have lo: "of_int \<lfloor>x\<rfloor> \<le> x" and hi: "x < of_int \<lfloor>x\<rfloor> + 1"
    by linarith+
  consider "x - of_int \<lfloor>x\<rfloor> < 1 / 2" | "1 / 2 < x - of_int \<lfloor>x\<rfloor>"
    | "x - of_int \<lfloor>x\<rfloor> = 1 / 2" "even \<lfloor>x\<rfloor>" | "x - of_int \<lfloor>x\<rfloor> = 1 / 2" "odd \<lfloor>x\<rfloor>"
    by linarith
  then show ?thesis
  proof cases
    case 1
    then have "rint x = \<lfloor>x\<rfloor>" by (simp add: rint_def Let_def)
    then show ?thesis using 1 lo by simp
  next
    case 2
    then have "rint x = \<lfloor>x\<rfloor> + 1" by (simp add: rint_def Let_def)
    then show ?thesis using 2 hi by simp
  next
    case 3
    then have "rint x = \<lfloor>x\<rfloor>" by (simp add: rint_def Let_def)
    then show ?thesis using 3 by simp
  next
    case 4
    then have "rint x = \<lfloor>x\<rfloor> + 1" by (simp add: rint_def Let_def)
    then show ?thesis using 4 by simp
  qed
qed

lemma round_millions_nearest:
  "\<exists>n :: int. round_millions x = of_int n * 1000000
     \<and> \<bar>x - round_millions x\<bar> \<le> 500000
     \<and> (\<bar>x - round_millions x\<bar> = 500000 \<longrightarrow> even n)"
proof -
  define n where "n = rint (x / 1000000)"
  define d where "d = x / 1000000 - of_int n"
  have rm: "round_millions x = of_int n * 1000000"
    by (simp add: round_millions_def n_def)
  have eq: "x - round_millions x = 1000000 * d"
    by (simp add: rm d_def algebra_simps)
  have ab: "\<bar>x - round_millions x\<bar> = 1000000 * \<bar>d\<bar>"
    unfolding eq by (simp add: abs_mult)
  have near: "\<bar>d\<bar> \<le> 1 / 2" and tie: "\<bar>d\<bar> = 1 / 2 \<longrightarrow> even n"
    using rint_nearest [of "x / 1000000"] by (simp_all add: n_def d_def)
  have "\<bar>x - round_millions x\<bar> \<le> 500000"
    unfolding ab using near by simp
  moreover have "\<bar>x - round_millions x\<bar> = 500000 \<longrightarrow> even n"
    unfolding ab using tie by simp
  ultimately show ?thesis using rm by blast
qed

lemma options_comparison:
  "scenario_options comparison_records = [100000000, 101000000, 150000000, 201000000]"
proof -
  have "rint (1004 / 10) = 100" "rint (1009 / 10) = 101" "rint (1495 / 10) = 150"
    "rint (1505 / 10) = 150" "rint (2006 / 10) = 201"
    by (simp_all add: rint_def)
  then have "round_millions 100400000 = 100000000" "round_millions 100900000 = 101000000"
    "round_millions 149500000 = 150000000" "round_millions 150500000 = 150000000"
    "round_millions 200600000 = 201000000"
    by (simp_all add: round_millions_def)
  then show ?thesis
    by (simp add: scenario_options_def unique_def column_def comparison_records_def)
qed

lemma find_Some_ex: "find P xs = Some x \<Longrightarrow> \<exists>r \<in> set xs. P r"
  by (induction xs) (auto split: if_splits)

lemma within_comparison:
  "find (within_tolerance 101000000) comparison_records = Some (comparison_records ! 0)"
  "find (within_tolerance 150000000) comparison_records = Some (comparison_records ! 2)"
  "find (within_tolerance 201000000) comparison_records = Some (comparison_records ! 4)"
  by (simp_all add: comparison_records_def within_tolerance_def)

text \<open>
  C6. In the Scenario Comparator each of the three targets is an option of its select box,
  hence the spend of a record of the filtered table rounded to the nearest million (a
  whole number of millions at most half a million away from that spend, the even one when
  the spend lies halfway). With a non-empty selection (each pick is one of the options):
  when every target has a record within one percent of it, the comparison has one row per
  target, numbered 1 to 3, that holds the spend, sales, ROAS, traffic, conversion rate,
  AOV and transaction count of the first record of the filtered table whose spend lies in
  \<open>[0.99 target, 1.01 target]\<close>; when a target has no such record, the comparator fails with
  \<open>IndexError\<close>.
\<close>

theorem scenario_comparator_correct:
  assumes "p1 < length (scenario_options filtered_df)"
    and "p2 < length (scenario_options filtered_df)"
    and "p3 < length (scenario_options filtered_df)"
  shows "\<exists>t1 t2 t3.
           selectbox (scenario_options filtered_df) p1 = Some t1
         \<and> selectbox (scenario_options filtered_df) p2 = Some t2
         \<and> selectbox (scenario_options filtered_df) p3 = Some t3
         \<and> (\<forall>t \<in> {t1, t2, t3}. \<exists>r \<in> set filtered_df. \<exists>n :: int.
               t = round_millions (total_annual_spend r)
               \<and> t = of_int n * 1000000
               \<and> \<bar>total_annual_spend r - t\<bar> \<le> 500000
               \<and> (\<bar>total_annual_spend r - t\<bar> = 500000 \<longrightarrow> even n))
         \<and> ((\<forall>t \<in> {t1, t2, t3}. \<exists>r \<in> set filtered_df. within_tolerance t r) \<longrightarrow>
              (\<exists>a b c. find (within_tolerance t1) filtered_df = Some a
                     \<and> find (within_tolerance t2) filtered_df = Some b
                     \<and> find (within_tolerance t3) filtered_df = Some c
                     \<and> scenario_comparison filtered_df (p1, p2, p3) =
                         Inr [\<lparr> cmp_scenario = 1,
                                cmp_annual_spend = total_annual_spend a,
                                cmp_annual_sales = total_annual_sales a,
                                cmp_roas = blended_roas a,
                                cmp_traffic = total_annual_traffic a,
                                cmp_conv_rate = blended_conversion_rate a,
                                cmp_aov = blended_aov a,
                                cmp_transactions = total_annual_transactions a \<rparr>,
                              \<lparr> cmp_scenario = 2,
                                cmp_annual_spend = total_annual_spend b,
                                cmp_annual_sales = total_annual_sales b,
                                cmp_roas = blended_roas b,
                                cmp_traffic = total_annual_traffic b,
                                cmp_conv_rate = blended_conversion_rate b,
                                cmp_aov = blended_aov b,
                                cmp_transactions = total_annual_transactions b \<rparr>,
                              \<lparr> cmp_scenario = 3,
                                cmp_annual_spend = total_annual_spend c,
                                cmp_annual_sales = total_annual_sales c,
                                cmp_roas = blended_roas c,
                                cmp_traffic = total_annual_traffic c,
                                cmp_conv_rate = blended_conversion_rate c,
                                cmp_aov = blended_aov c,
                                cmp_transactions = total_annual_transactions c \<rparr>]))
         \<and> ((\<exists>t \<in> {t1, t2, t3}. \<forall>r \<in> set filtered_df. \<not> within_tolerance t r) \<longrightarrow>
              scenario_comparison filtered_df (p1, p2, p3) = Inl IndexError)"
proof -
  define opts where "opts = scenario_options filtered_df"
  define t1 where "t1 = opts ! p1"
  define t2 where "t2 = opts ! p2"
  define t3 where "t3 = opts ! p3"
  have sel: "selectbox opts p1 = Some t1" "selectbox opts p2 = Some t2"
    "selectbox opts p3 = Some t3"
    using assms by (simp_all add: selectbox_def opts_def t1_def t2_def t3_def)
  have mem: "t1 \<in> set opts" "t2 \<in> set opts" "t3 \<in> set opts"
    using assms by (simp_all add: opts_def t1_def t2_def t3_def)
  have opts_set: "set opts = round_millions ` total_annual_spend ` set filtered_df"
    by (simp add: opts_def scenario_options_def set_unique column_def image_image)
  have one: "\<exists>r \<in> set filtered_df. \<exists>n :: int.
               t = round_millions (total_annual_spend r)
               \<and> t = of_int n * 1000000
               \<and> \<bar>total_annual_spend r - t\<bar> \<le> 500000
               \<and> (\<bar>total_annual_spend r - t\<bar> = 500000 \<longrightarrow> even n)"
    if "t \<in> set opts" for t
  proof -
    from that opts_set obtain r where r: "r \<in> set filtered_df"
      "t = round_millions (total_annual_spend r)"
      by auto
    from round_millions_nearest [of "total_annual_spend r"]
    obtain n :: int where "round_millions (total_annual_spend r) = of_int n * 1000000"
      "\<bar>total_annual_spend r - round_millions (total_annual_spend r)\<bar> \<le> 500000"
      "\<bar>total_annual_spend r - round_millions (total_annual_spend r)\<bar> = 500000 \<longrightarrow> even n"
      by blast
    then have "t = round_millions (total_annual_spend r)
               \<and> t = of_int n * 1000000
               \<and> \<bar>total_annual_spend r - t\<bar> \<le> 500000
               \<and> (\<bar>total_annual_spend r - t\<bar> = 500000 \<longrightarrow> even n)"
      unfolding r(2) by simp
    then show ?thesis using r(1) by blast
  qed
  have rounded: "\<forall>t \<in> {t1, t2, t3}. \<exists>r \<in> set filtered_df. \<exists>n :: int.
               t = round_millions (total_annual_spend r)
               \<and> t = of_int n * 1000000
               \<and> \<bar>total_annual_spend r - t\<bar> \<le> 500000
               \<and> (\<bar>total_annual_spend r - t\<bar> = 500000 \<longrightarrow> even n)"
    using one [OF mem(1)] one [OF mem(2)] one [OF mem(3)] by simp
  have run: "scenario_comparison filtered_df (p1, p2, p3) =
               comparison_loop 1 [Some t1, Some t2, Some t3] filtered_df"
    unfolding scenario_comparison_def Let_def opts_def [symmetric]
    by (simp only: fst_conv snd_conv sel)
  have ok: "(\<forall>t \<in> {t1, t2, t3}. \<exists>r \<in> set filtered_df. within_tolerance t r) \<longrightarrow>
              (\<exists>a b c. find (within_tolerance t1) filtered_df = Some a
                     \<and> find (within_tolerance t2) filtered_df = Some b
                     \<and> find (within_tolerance t3) filtered_df = Some c
                     \<and> scenario_comparison filtered_df (p1, p2, p3) =
                         Inr [\<lparr> cmp_scenario = 1,
                                cmp_annual_spend = total_annual_spend a,
                                cmp_annual_sales = total_annual_sales a,
                                cmp_roas = blended_roas a,
                                cmp_traffic = total_annual_traffic a,
                                cmp_conv_rate = blended_conversion_rate a,
                                cmp_aov = blended_aov a,
                                cmp_transactions = total_annual_transactions a \<rparr>,
                              \<lparr> cmp_scenario = 2,
                                cmp_annual_spend = total_annual_spend b,
                                cmp_annual_sales = total_annual_sales b,
                                cmp_roas = blended_roas b,
                                cmp_traffic = total_annual_traffic b,
                                cmp_conv_rate = blended_conversion_rate b,
                                cmp_aov = blended_aov b,
                                cmp_transactions = total_annual_transactions b \<rparr>,
                              \<lparr> cmp_scenario = 3,
                                cmp_annual_spend = total_annual_spend c,
                                cmp_annual_sales = total_annual_sales c,
                                cmp_roas = blended_roas c,
                                cmp_traffic = total_annual_traffic c,
                                cmp_conv_rate = blended_conversion_rate c,
                                cmp_aov = blended_aov c,
                                cmp_transactions = total_annual_transactions c \<rparr>])"
  proof
    assume all: "\<forall>t \<in> {t1, t2, t3}. \<exists>r \<in> set filtered_df. within_tolerance t r"
    have "find (within_tolerance t1) filtered_df \<noteq> None"
      "find (within_tolerance t2) filtered_df \<noteq> None"
      "find (within_tolerance t3) filtered_df \<noteq> None"
      using all by (auto simp: find_None_iff)
    then obtain a b c where abc: "find (within_tolerance t1) filtered_df = Some a"
      "find (within_tolerance t2) filtered_df = Some b"
      "find (within_tolerance t3) filtered_df = Some c"
      by auto
    have "scenario_comparison filtered_df (p1, p2, p3) =
            Inr [comparison_row 1 a, comparison_row 2 b, comparison_row 3 c]"
      unfolding run comparison_three abc by simp
    then show "\<exists>a b c. find (within_tolerance t1) filtered_df = Some a
                     \<and> find (within_tolerance t2) filtered_df = Some b
                     \<and> find (within_tolerance t3) filtered_df = Some c
                     \<and> scenario_comparison filtered_df (p1, p2, p3) =
                         Inr [\<lparr> cmp_scenario = 1,
                                cmp_annual_spend = total_annual_spend a,
                                cmp_annual_sales = total_annual_sales a,
                                cmp_roas = blended_roas a,
                                cmp_traffic = total_annual_traffic a,
                                cmp_conv_rate = blended_conversion_rate a,
                                cmp_aov = blended_aov a,
                                cmp_transactions = total_annual_transactions a \<rparr>,
                              \<lparr> cmp_scenario = 2,
                                cmp_annual_spend = total_annual_spend b,
                                cmp_annual_sales = total_annual_sales b,
                                cmp_roas = blended_roas b,
                                cmp_traffic = total_annual_traffic b,
                                cmp_conv_rate = blended_conversion_rate b,
                                cmp_aov = blended_aov b,
                                cmp_transactions = total_annual_transactions b \<rparr>,
                              \<lparr> cmp_scenario = 3,
                                cmp_annual_spend = total_annual_spend c,
                                cmp_annual_sales = total_annual_sales c,
                                cmp_roas = blended_roas c,
                                cmp_traffic = total_annual_traffic c,
                                cmp_conv_rate = blended_conversion_rate c,
                                cmp_aov = blended_aov c,
                                cmp_transactions = total_annual_transactions c \<rparr>]"
      using abc by (simp add: comparison_row_def)
  qed
  have bad: "(\<exists>t \<in> {t1, t2, t3}. \<forall>r \<in> set filtered_df. \<not> within_tolerance t r) \<longrightarrow>
              scenario_comparison filtered_df (p1, p2, p3) = Inl IndexError"
  proof
    assume "\<exists>t \<in> {t1, t2, t3}. \<forall>r \<in> set filtered_df. \<not> within_tolerance t r"
    then have "find (within_tolerance t1) filtered_df = None
               \<or> find (within_tolerance t2) filtered_df = None
               \<or> find (within_tolerance t3) filtered_df = None"
      by (auto simp: find_None_iff)
    then show "scenario_comparison filtered_df (p1, p2, p3) = Inl IndexError"
      unfolding run comparison_three by (auto split: option.splits)
  qed
  show ?thesis
    unfolding opts_def [symmetric]
    using sel rounded ok bad by (intro exI [of _ t1] exI [of _ t2] exI [of _ t3] conjI)
qed

text \<open>
  On \<open>comparison_records\<close> the options are 100M, 101M, 150M and 201M: 149.5M and 150.5M
  both round to 150M. With the picks 101M, 150M and 201M the first row is built from the
  record at 100.4M, the first within one percent of 101M, not from the record at 100.9M
  whose rounded spend is 101M.
\<close>

theorem scenario_comparator_correct_witness:
  "scenario_options comparison_records = [100000000, 101000000, 150000000, 201000000]
   \<and> scenario_comparison comparison_records (1, 2, 3) =
       Inr [\<lparr> cmp_scenario = 1, cmp_annual_spend = 100400000, cmp_annual_sales = 301200000,
              cmp_roas = 3.0, cmp_traffic = 5020000, cmp_conv_rate = 0.024, cmp_aov = 2500,
              cmp_transactions = 120480 \<rparr>,
            \<lparr> cmp_scenario = 2, cmp_annual_spend = 149500000, cmp_annual_sales = 330000000,
              cmp_roas = 2.2, cmp_traffic = 6000000, cmp_conv_rate = 0.023, cmp_aov = 2400,
              cmp_transactions = 138000 \<rparr>,
            \<lparr> cmp_scenario = 3, cmp_annual_spend = 200600000, cmp_annual_sales = 361000000,
              cmp_roas = 1.8, cmp_traffic = 6500000, cmp_conv_rate = 0.022, cmp_aov = 2300,
              cmp_transactions = 143000 \<rparr>]"
proof -
  have len: "1 < length (scenario_options comparison_records)"
    "2 < length (scenario_options comparison_records)"
    "3 < length (scenario_options comparison_records)"
    by (simp_all add: options_comparison)
  have sel: "selectbox (scenario_options comparison_records) 1 = Some 101000000"
    "selectbox (scenario_options comparison_records) 2 = Some 150000000"
    "selectbox (scenario_options comparison_records) 3 = Some 201000000"
    by (simp_all add: options_comparison selectbox_def)
  from scenario_comparator_correct [OF len]
  obtain t1 t2 t3 where t:
    "selectbox (scenario_options comparison_records) 1 = Some t1"
    "selectbox (scenario_options comparison_records) 2 = Some t2"
    "selectbox (scenario_options comparison_records) 3 = Some t3"
    "(\<forall>t \<in> {t1, t2, t3}. \<exists>r \<in> set comparison_records. within_tolerance t r) \<longrightarrow>
              (\<exists>a b c. find (within_tolerance t1) comparison_records = Some a
                     \<and> find (within_tolerance t2) comparison_records = Some b
                     \<and> find (within_tolerance t3) comparison_records = Some c
                     \<and> scenario_comparison comparison_records (1, 2, 3) =
                         Inr [\<lparr> cmp_scenario = 1,
                                cmp_annual_spend = total_annual_spend a,
                                cmp_annual_sales = total_annual_sales a,
                                cmp_roas = blended_roas a,
                                cmp_traffic = total_annual_traffic a,
                                cmp_conv_rate = blended_conversion_rate a,
                                cmp_aov = blended_aov a,
                                cmp_transactions = total_annual_transactions a \<rparr>,
                              \<lparr> cmp_scenario = 2,
                                cmp_annual_spend = total_annual_spend b,
                                cmp_annual_sales = total_annual_sales b,
                                cmp_roas = blended_roas b,
                                cmp_traffic = total_annual_traffic b,
                                cmp_conv_rate = blended_conversion_rate b,
                                cmp_aov = blended_aov b,
                                cmp_transactions = total_annual_transactions b \<rparr>,
                              \<lparr> cmp_scenario = 3,
                                cmp_annual_spend = total_annual_spend c,
                                cmp_annual_sales = total_annual_sales c,
                                cmp_roas = blended_roas c,
                                cmp_traffic = total_annual_traffic c,
                                cmp_conv_rate = blended_conversion_rate c,
                                cmp_aov = blended_aov c,
                                cmp_transactions = total_annual_transactions c \<rparr>])"
    by blast
  have eq: "t1 = 101000000" "t2 = 150000000" "t3 = 201000000"
    using t(1,2,3) sel by simp_all
  have "\<exists>r \<in> set comparison_records. within_tolerance t1 r"
    "\<exists>r \<in> set comparison_records. within_tolerance t2 r"
    "\<exists>r \<in> set comparison_records. within_tolerance t3 r"
    unfolding eq using within_comparison by (blast dest: find_Some_ex)+
  then have "\<forall>t \<in> {t1, t2, t3}. \<exists>r \<in> set comparison_records. within_tolerance t r"
    by simp
  with t(4) obtain a b c where abc:
    "find (within_tolerance t1) comparison_records = Some a"
    "find (within_tolerance t2) comparison_records = Some b"
    "find (within_tolerance t3) comparison_records = Some c"
    and rows: "scenario_comparison comparison_records (1, 2, 3) =
                         Inr [\<lparr> cmp_scenario = 1,
                                cmp_annual_spend = total_annual_spend a,
                                cmp_annual_sales = total_annual_sales a,
                                cmp_roas = blended_roas a,
                                cmp_traffic = total_annual_traffic a,
                                cmp_conv_rate = blended_conversion_rate a,
                                cmp_aov = blended_aov a,
                                cmp_transactions = total_annual_transactions a \<rparr>,
                              \<lparr> cmp_scenario = 2,
                                cmp_annual_spend = total_annual_spend b,
                                cmp_annual_sales = total_annual_sales b,
                                cmp_roas = blended_roas b,
                                cmp_traffic = total_annual_traffic b,
                                cmp_conv_rate = blended_conversion_rate b,
                                cmp_aov = blended_aov b,
                                cmp_transactions = total_annual_transactions b \<rparr>,
                              \<lparr> cmp_scenario = 3,
                                cmp_annual_spend = total_annual_spend c,
                                cmp_annual_sales = total_annual_sales c,
                                cmp_roas = blended_roas c,
                                cmp_traffic = total_annual_traffic c,
                                cmp_conv_rate = blended_conversion_rate c,
                                cmp_aov = blended_aov c,
                                cmp_transactions = total_annual_transactions c \<rparr>]"
    by blast
  have a: "a = comparison_records ! 0" and b: "b = comparison_records ! 2"
    and c: "c = comparison_records ! 4"
    using abc within_comparison unfolding eq by simp_all
  have "scenario_comparison comparison_records (1, 2, 3) =
       Inr [\<lparr> cmp_scenario = 1, cmp_annual_spend = 100400000, cmp_annual_sales = 301200000,
              cmp_roas = 3.0, cmp_traffic = 5020000, cmp_conv_rate = 0.024, cmp_aov = 2500,
              cmp_transactions = 120480 \<rparr>,
            \<lparr> cmp_scenario = 2, cmp_annual_spend = 149500000, cmp_annual_sales = 330000000,
              cmp_roas = 2.2, cmp_traffic = 6000000, cmp_conv_rate = 0.023, cmp_aov = 2400,
              cmp_transactions = 138000 \<rparr>,
            \<lparr> cmp_scenario = 3, cmp_annual_spend = 200600000, cmp_annual_sales = 361000000,
              cmp_roas = 1.8, cmp_traffic = 6500000, cmp_conv_rate = 0.022, cmp_aov = 2300,
              cmp_transactions = 143000 \<rparr>]"
    unfolding rows a b c by (simp add: comparison_records_def)
  then show ?thesis
    using options_comparison by simp
qed

section \<open>The analysis sections: the claims\<close>

lemma filter_small: "filter_engine small_spend_records (0, 3) 0 = small_spend_records"
  by (simp add: filter_engine_filter satisfies_filter_def currency_def small_spend_records_def
      mk_scenario_def)

lemma filter_none: "filter_engine example_records (0, 200) 4 = []"
  by (simp add: filter_engine_filter satisfies_filter_def currency_def example_records_def
      mk_scenario_def)

lemma summarizer_empty:
  "metric_summarizer annual_df [] =
     Inr \<lparr> total_scenarios = 0, from_filters = - int (length annual_df),
           max_annual_sales = None, best_roas = None, optimal_spend = None \<rparr>"
  by (simp add: metric_summarizer_def)

lemma comparison_empty: "scenario_comparison [] picks = Inl TypeError"
  by (simp add: scenario_comparison_def scenario_options_def unique_def column_def selectbox_def
      scenario_lookup_def)

lemma comparison_small: "scenario_comparison small_spend_records (0, p2, p3) = Inl IndexError"
proof -
  have "find (within_tolerance 1000000) small_spend_records = None"
    by (simp add: small_spend_records_def mk_scenario_def within_tolerance_def)
  then show ?thesis
    by (simp add: scenario_comparison_def options_small selectbox_def scenario_lookup_find)
qed

text \<open>
  C3. The Annual Overview, the Marginal Returns and the Data Table show the warning on an
  empty selection. The Scenario Comparison has no such guard: on an empty selection (no
  record of \<open>example_records\<close> has a ROAS of 4 or more) its select boxes return \<open>None\<close> and
  the run ends with \<open>TypeError\<close>; on \<open>small_spend_records\<close>, where the first option is 1M
  and no record lies within one percent of it, the first-row lookup runs on an empty
  selection and the run ends with \<open>IndexError\<close>.
\<close>

theorem scenario_comparison_unguarded:
  "dashboard example_records True [] (0, 200) 4 ScenarioComparison (default_picks [])
     = Inl TypeError
   \<and> dashboard small_spend_records True [] (0, 3) 0 ScenarioComparison
       (default_picks (scenario_options small_spend_records))
     = Inl IndexError
   \<and> dashboard example_records True [] (0, 200) 4 AnnualOverview (default_picks [])
     = Inr (\<lparr> total_scenarios = 0, from_filters = - 3, max_annual_sales = None,
              best_roas = None, optimal_spend = None \<rparr>, Warning no_match_warning)
   \<and> dashboard example_records True [] (0, 200) 4 MarginalReturns (default_picks [])
     = Inr (\<lparr> total_scenarios = 0, from_filters = - 3, max_annual_sales = None,
              best_roas = None, optimal_spend = None \<rparr>, Warning no_match_warning)
   \<and> dashboard example_records True [] (0, 200) 4 DataTable (default_picks [])
     = Inr (\<lparr> total_scenarios = 0, from_filters = - 3, max_annual_sales = None,
              best_roas = None, optimal_spend = None \<rparr>, Warning no_match_warning)"
proof -
  have len: "length example_records = 3" by (simp add: example_records_def)
  have picks: "default_picks (scenario_options small_spend_records) = (0, 1, 1)"
    by (simp add: options_small default_picks_def)
  have cards: "\<exists>cards. metric_summarizer small_spend_records small_spend_records = Inr cards"
    by (simp add: metric_summarizer_def small_spend_records_def idxmax_def column_def)
  have bounds: "slider_bounds example_records = Inr (100, 200)"
    "slider_bounds small_spend_records = Inr (1, 3)"
    by (simp_all add: slider_bounds_def py_int_def column_def example_records_def
        small_spend_records_def mk_scenario_def)
  show ?thesis
    using cards
    by (auto simp: dashboard_def bounds filter_none filter_small summarizer_empty
        analysis_section_def comparison_empty comparison_small picks len)
qed

section \<open>Data Loader: the claims\<close>

text \<open>
  C7, amended. When the dataset file is absent (\<open>FileNotFoundError\<close>) the Data Loader stops
  the session with the message that tells the user to run the pipeline first. Any other
  failure to open or to unpickle the file leaves the loader as the exception raised. When
  the file is present and readable the loader returns the unpickled mapping as it was
  stored, so with the keys \<open>annual_projections\<close>, \<open>baseline_projections\<close>,
  \<open>holiday_projections\<close>, \<open>summary_metrics\<close> and \<open>data_timestamp\<close> when it was stored with
  them.
\<close>

theorem data_loader_outcomes:
  "load_pipeline_data (Inl FileNotFoundError) = Stopped pipeline_missing_message
   \<and> (\<forall>e. e \<noteq> FileNotFoundError \<longrightarrow>
         (load_pipeline_data (Inl e) :: (string \<rightharpoonup> 'v) outcome) = Raised e)
   \<and> load_pipeline_data (Inr (data :: string \<rightharpoonup> 'v)) = Returned data
   \<and> (\<forall>returned. load_pipeline_data (Inr data) = Returned returned \<and> set dataset_keys \<subseteq> dom data
         \<longrightarrow> set dataset_keys \<subseteq> dom returned)"
  by (simp add: load_pipeline_data_def)

theorem data_loader_outcomes_witness:
  "load_pipeline_data (Inl PermissionError :: py_exception + (string \<rightharpoonup> nat)) = Raised PermissionError
   \<and> load_pipeline_data (Inr (\<lambda>k. if k \<in> set dataset_keys then Some (0::nat) else None))
       = Returned (\<lambda>k. if k \<in> set dataset_keys then Some 0 else None)"
  using data_loader_outcomes [of "\<lambda>k. if k \<in> set dataset_keys then Some (0::nat) else None"]
  by auto

text \<open>A file that exists and cannot be read does not lead to the message.\<close>

theorem data_loader_unreadable_counterexample:
  "load_pipeline_data (Inl PermissionError :: py_exception + (string \<rightharpoonup> nat))
     \<noteq> Stopped pipeline_missing_message"
  by (simp add: load_pipeline_data_def)

section \<open>The synthetic-data dashboard: the claims\<close>

lemma month_ends_length: "length (month_ends 2024 2026) = 36"
  by (simp add: month_ends_def upt_rec [of 2024] upt_rec [of 2025] upt_rec [of 2026])

text \<open>
  C9. In the synthetic-data dashboard the selected scenario label has no effect on the
  numbers: from one state of the generator, any two selections give the same dates, the
  same Revenue, Costs and Profit series, the same totals and the same final state of the
  generator; the pages differ in the two chart titles only, which begin with the label.
\<close>

theorem scenario_label_cosmetic:
  "page_frame (fst (app randint g s1)) = page_frame (fst (app randint g s2))
   \<and> total_revenue (fst (app randint g s1)) = total_revenue (fst (app randint g s2))
   \<and> total_costs (fst (app randint g s1)) = total_costs (fst (app randint g s2))
   \<and> total_profit (fst (app randint g s1)) = total_profit (fst (app randint g s2))
   \<and> snd (app randint g s1) = snd (app randint g s2)
   \<and> (fst (app randint g s1)) \<lparr> line_title := a, bar_title := b \<rparr>
       = (fst (app randint g s2)) \<lparr> line_title := a, bar_title := b \<rparr>
   \<and> line_title (fst (app randint g s1)) = scenario_name s1 @ '' Scenario - Financial Trends''
   \<and> bar_title (fst (app randint g s1)) = scenario_name s1 @ '' Scenario - Summary''
   \<and> col_date (page_frame (fst (app randint g s1))) = month_ends 2024 2026"
  by (simp add: app_def Let_def split: prod.splits)

theorem scenario_label_cosmetic_witness:
  "total_revenue (fst (app counter_randint 7 Baseline))
     = total_revenue (fst (app counter_randint 7 Pessimistic))
   \<and> line_title (fst (app counter_randint 7 Baseline)) = ''Baseline Scenario - Financial Trends''
   \<and> line_title (fst (app counter_randint 7 Pessimistic))
       = ''Pessimistic Scenario - Financial Trends''"
  using scenario_label_cosmetic [of counter_randint 7 Baseline Pessimistic]
    scenario_label_cosmetic [of counter_randint 7 Pessimistic Baseline]
  by simp

end
